theory Spec2Isabelle
  imports Complex_Main "HOL-Library.Product_Lexorder"
begin

section \<open>Data model of aten/src/ATen/native/TensorCompare.cpp\<close>

text \<open>
  The element types of c10 (\<open>ScalarType\<close>), written with the \<open>k\<close> prefix of the
  aliases the source uses (\<open>at::kBool\<close>, \<open>kLong\<close>, \<open>kHalf\<close>, \<open>kBFloat16\<close>).
\<close>

datatype ScalarType =
    kByte | kChar | kShort | kInt | kLong
  | kHalf | kFloat | kDouble
  | kComplexHalf | kComplexFloat | kComplexDouble
  | kBool | kQInt8 | kQUInt8 | kQInt32 | kBFloat16

fun isComplexType :: "ScalarType \<Rightarrow> bool" where
  "isComplexType kComplexHalf = True"
| "isComplexType kComplexFloat = True"
| "isComplexType kComplexDouble = True"
| "isComplexType _ = False"

fun isFloatingType :: "ScalarType \<Rightarrow> bool" where
  "isFloatingType kDouble = True"
| "isFloatingType kFloat = True"
| "isFloatingType kHalf = True"
| "isFloatingType kBFloat16 = True"
| "isFloatingType _ = False"

fun isIntegralType :: "ScalarType \<Rightarrow> bool \<Rightarrow> bool" where
  "isIntegralType kByte includeBool = True"
| "isIntegralType kChar includeBool = True"
| "isIntegralType kInt includeBool = True"
| "isIntegralType kLong includeBool = True"
| "isIntegralType kShort includeBool = True"
| "isIntegralType kBool includeBool = includeBool"
| "isIntegralType _ includeBool = False"

text \<open>
  A failed \<open>TORCH_CHECK\<close> raises; the model returns the error as a value. The names are
  the error kinds of the specification; the two checks of \<open>mode_out\<close> on the input's
  own device type and layout have no name there and get one here, and so does the
  checked conversion of a complex scalar with an imaginary part. \<open>Broadcast\<close> is the
  error of the broadcasting engine: the shapes of the operands cannot be broadcast, or
  the broadcast shape is not the shape of the tensor an in-place operator writes.
\<close>

datatype error =
    InvalidArgument | UnsupportedType | DtypeMismatch | DeviceMismatch | UnsafeCast
  | IndexOutOfRange | EmptyReductionDim | NotYetImplemented
  | UnsupportedDevice | UnsupportedLayout | ConversionOverflow | InternalAssert | Broadcast

text \<open>
  A \<open>double\<close>, up to what the comparisons of this file can see: not-a-number, the two
  infinities, or a finite value. The two zeros compare equal and are one value here.
\<close>

datatype double = NaN | PInf | NInf | Fin real

text \<open>The comparisons of IEEE 754: every comparison with a NaN is false, but \<open>!=\<close>.\<close>

fun d_eq :: "double \<Rightarrow> double \<Rightarrow> bool" where
  "d_eq NaN _ = False"
| "d_eq _ NaN = False"
| "d_eq x y = (x = y)"

definition d_ne :: "double \<Rightarrow> double \<Rightarrow> bool" where
  "d_ne x y = (\<not> d_eq x y)"

fun d_ge :: "double \<Rightarrow> double \<Rightarrow> bool" where
  "d_ge NaN _ = False"
| "d_ge _ NaN = False"
| "d_ge PInf _ = True"
| "d_ge _ NInf = True"
| "d_ge _ PInf = False"
| "d_ge NInf _ = False"
| "d_ge (Fin x) (Fin y) = (y \<le> x)"

datatype DeviceType = CPU | CUDA | XLA | Meta

datatype Layout = Strided | Sparse | Mkldnn

text \<open>
  A tensor: its dtype, device (type and index), layout, whether it is quantized, its
  shape and its elements in row-major order. Strides and storage sharing are left out:
  no operation modelled here reads them. The element type is a parameter: \<open>double\<close>
  for numeric tensors, \<open>bool\<close> for masks.
\<close>

record 'a Tensor =
  scalar_type :: ScalarType
  device :: "DeviceType \<times> nat"
  layout :: Layout
  is_quantized :: bool
  sizes :: "nat list"
  data :: "'a list"

definition numel :: "'a Tensor \<Rightarrow> nat" where
  "numel t = prod_list (sizes t)"

definition dim :: "'a Tensor \<Rightarrow> nat" where
  "dim t = length (sizes t)"

definition is_floating_point :: "'a Tensor \<Rightarrow> bool" where
  "is_floating_point t = isFloatingType (scalar_type t)"

definition is_complex :: "'a Tensor \<Rightarrow> bool" where
  "is_complex t = isComplexType (scalar_type t)"

subsection \<open>Broadcasting\<close>

text \<open>
  Modelled from the spec: broadcasting, the work of the iteration engine (not part of
  this file). Two shapes are aligned at their last dimension; a dimension of size 1,
  and a dimension one shape lacks, is repeated to the size of the other; any other pair
  of sizes must agree. \<open>infer_size\<close> gives the broadcast shape, or nothing when the
  shapes cannot be broadcast.
\<close>

fun infer_size_rev :: "nat list \<Rightarrow> nat list \<Rightarrow> nat list option" where
  "infer_size_rev [] ys = Some ys"
| "infer_size_rev xs [] = Some xs"
| "infer_size_rev (x # xs) (y # ys) =
     (if x = y \<or> x = 1 \<or> y = 1
      then map_option ((#) (if x = 1 then y else x)) (infer_size_rev xs ys)
      else None)"

definition infer_size :: "nat list \<Rightarrow> nat list \<Rightarrow> nat list option" where
  "infer_size a b = map_option rev (infer_size_rev (rev a) (rev b))"

text \<open>
  The elements of a tensor expanded to a shape it broadcasts to, in row-major order:
  the elements are cut into the slices of the first dimension, every slice is expanded,
  and a first dimension of size 1 is repeated.
\<close>

fun chunks :: "nat \<Rightarrow> nat \<Rightarrow> 'a list \<Rightarrow> 'a list list" where
  "chunks 0 p xs = []"
| "chunks (Suc k) p xs = take p xs # chunks k p (drop p xs)"

fun expand_data :: "nat list \<Rightarrow> nat list \<Rightarrow> 'a list \<Rightarrow> 'a list" where
  "expand_data (s # ss) (t # ts) xs =
     (let parts = map (expand_data ss ts) (chunks s (prod_list ss) xs)
      in if s = t then concat parts else concat (replicate t (concat parts)))"
| "expand_data ss ts xs = xs"

definition expand :: "'a Tensor \<Rightarrow> nat list \<Rightarrow> 'a list" where
  "expand t shape =
     expand_data (replicate (length shape - length (sizes t)) 1 @ sizes t) shape (data t)"

subsection \<open>Elementwise primitives\<close>

text \<open>
  Modelled from the spec: the elementwise primitives of the engine (\<open>eq\<close>, \<open>ne\<close>, logical
  and/or), which are not part of this file. The comparison operators \<open>==\<close>, \<open>!=\<close> between
  tensors give a fresh \<open>kBool\<close> tensor of the broadcast shape. The in-place logical
  operators \<open>__ior__\<close>, \<open>__iand__\<close> write into their first operand: the output is validated
  against the broadcast shape of the operands and an output that is written in place is
  not resized, so the call raises when the broadcast shape is not the shape of the
  tensor written (\<open>output with shape [1] doesn't match the broadcast shape [2]\<close>), and
  otherwise the other operand is expanded to that shape.
\<close>

definition comparison_op ::
  "(double \<Rightarrow> double \<Rightarrow> bool) \<Rightarrow> double Tensor \<Rightarrow> double Tensor \<Rightarrow> error + bool Tensor" where
  "comparison_op f a b =
     (case infer_size (sizes a) (sizes b) of
        None \<Rightarrow> Inl Broadcast
      | Some shape \<Rightarrow>
          Inr \<lparr>scalar_type = kBool, device = device a, layout = layout a,
               is_quantized = False, sizes = shape,
               data = map2 f (expand a shape) (expand b shape)\<rparr>)"

definition eq_Tensor :: "double Tensor \<Rightarrow> double Tensor \<Rightarrow> error + bool Tensor" where
  "eq_Tensor a b = comparison_op d_eq a b"

definition ne_Tensor :: "double Tensor \<Rightarrow> double Tensor \<Rightarrow> error + bool Tensor" where
  "ne_Tensor a b = comparison_op d_ne a b"

definition logical_inplace ::
  "(bool \<Rightarrow> bool \<Rightarrow> bool) \<Rightarrow> bool Tensor \<Rightarrow> bool Tensor \<Rightarrow> error + bool Tensor" where
  "logical_inplace f self other =
     (case infer_size (sizes self) (sizes other) of
        None \<Rightarrow> Inl Broadcast
      | Some shape \<Rightarrow>
          if shape \<noteq> sizes self then Inl Broadcast
          else Inr (self\<lparr>data := map2 f (data self) (expand other shape)\<rparr>))"

definition ior :: "bool Tensor \<Rightarrow> bool Tensor \<Rightarrow> error + bool Tensor" where
  "ior self other = logical_inplace (\<or>) self other"

definition iand :: "bool Tensor \<Rightarrow> bool Tensor \<Rightarrow> error + bool Tensor" where
  "iand self other = logical_inplace (\<and>) self other"

section \<open>Predicates\<close>

text \<open>\<open>isnan\<close>: \<open>return self != self;\<close>\<close>

definition isnan :: "double Tensor \<Rightarrow> error + bool Tensor" where
  "isnan self = ne_Tensor self self"

text \<open>
  \<open>isclose\<close>. The four checks come first, in the order of the source. The closeness by
  equality follows, with the NaN match or-ed in for floating and complex inputs, and the
  return on zero tolerances. The last part (the casts, \<open>allowed_error\<close>, \<open>actual_error\<close>
  and \<open>isfinite(actual_error).__iand__(actual_error <= allowed_error)\<close>) is rounded
  floating-point arithmetic; it is the parameter \<open>finite_closeness\<close>, whose result is
  or-ed into \<open>close\<close> as the source does.
\<close>

definition isclose ::
  "(double \<Rightarrow> double \<Rightarrow> double Tensor \<Rightarrow> double Tensor \<Rightarrow> error + bool Tensor) \<Rightarrow>
   double Tensor \<Rightarrow> double Tensor \<Rightarrow> double \<Rightarrow> double \<Rightarrow> bool \<Rightarrow> error + bool Tensor" where
  "isclose finite_closeness self other rtol atol equal_nan =
     (if scalar_type self \<noteq> scalar_type other then Inl DtypeMismatch
      else if is_quantized self \<or> is_quantized other then Inl UnsupportedType
      else if \<not> d_ge rtol (Fin 0) then Inl InvalidArgument
      else if \<not> d_ge atol (Fin 0) then Inl InvalidArgument
      else
        case eq_Tensor self other of
          Inl e \<Rightarrow> Inl e
        | Inr close0 \<Rightarrow>
            (case (if equal_nan \<and> (is_floating_point self \<or> is_complex self)
                   then (case isnan self of
                           Inl e \<Rightarrow> Inl e
                         | Inr ns \<Rightarrow>
                             (case isnan other of
                                Inl e \<Rightarrow> Inl e
                              | Inr no \<Rightarrow>
                                  (case iand ns no of
                                     Inl e \<Rightarrow> Inl e
                                   | Inr both \<Rightarrow> ior close0 both)))
                   else Inr close0) of
               Inl e \<Rightarrow> Inl e
             | Inr close \<Rightarrow>
                 if d_eq rtol (Fin 0) \<and> d_eq atol (Fin 0) then Inr close
                 else
                   (case finite_closeness rtol atol self other of
                      Inl e \<Rightarrow> Inl e
                    | Inr fc \<Rightarrow> ior close fc)))"

text \<open>
  The mask a comparison of \<open>a\<close> with a tensor of its shape returns, given its elements.
\<close>

definition mask_of :: "double Tensor \<Rightarrow> bool list \<Rightarrow> bool Tensor" where
  "mask_of a bs =
     \<lparr>scalar_type = kBool, device = device a, layout = layout a, is_quantized = False,
      sizes = sizes a, data = bs\<rparr>"

text \<open>
  An invariant of tensors: only a floating or complex tensor holds a NaN (a complex
  element counts as NaN when one of its parts is).
\<close>

definition elements_fit_dtype :: "double Tensor \<Rightarrow> bool" where
  "elements_fit_dtype t = (is_floating_point t \<or> is_complex t \<or> NaN \<notin> set (data t))"

section \<open>Range clamping\<close>

subsection \<open>Scalars, outputs and the iterator\<close>

text \<open>
  \<open>c10::Scalar\<close>: a tagged value. \<open>toDouble\<close> is a checked conversion: a complex value
  with a non-zero imaginary part does not convert.
\<close>

datatype Scalar =
    ScalarBool bool | ScalarInt int | ScalarDouble double | ScalarComplex double double

fun isComplex :: "Scalar \<Rightarrow> bool" where
  "isComplex (ScalarComplex re im) = True"
| "isComplex _ = False"

fun toDouble :: "Scalar \<Rightarrow> error + double" where
  "toDouble (ScalarBool b) = Inr (Fin (if b then 1 else 0))"
| "toDouble (ScalarInt i) = Inr (Fin (of_int i))"
| "toDouble (ScalarDouble d) = Inr d"
| "toDouble (ScalarComplex re im) =
     (if d_ne im (Fin 0) then Inl ConversionOverflow else Inr re)"

text \<open>
  What \<open>maybe_get_output()\<close> gives a meta function: nothing for the functional variant,
  and for the in-place and \<open>out=\<close> variants a tensor that either is the very object
  \<open>self\<close> or is another one. \<open>is_same\<close> compares objects, so the model keeps the
  identity apart from the contents.
\<close>

datatype OutRef = SelfRef | OtherRef "double Tensor"

type_synonym Output = "OutRef option"

definition out_defined :: "Output \<Rightarrow> bool" where
  "out_defined out = (out \<noteq> None)"

definition out_is_same_self :: "Output \<Rightarrow> bool" where
  "out_is_same_self out = (out = Some SelfRef)"

text \<open>
  The iterator a meta function builds and the impl function runs a kernel over: the
  output tensor and the inputs, in the order they were added.
\<close>

record TensorIterator =
  iter_output :: "double Tensor"
  iter_inputs :: "double Tensor list"

record TensorIteratorConfig =
  check_mem_overlap :: bool
  promote_inputs_to_common_dtype :: bool
  cast_common_dtype_to_outputs :: bool
  enforce_safe_casting_to_output :: bool
  cfg_output :: Output
  cfg_self :: "double Tensor"
  cfg_inputs :: "double Tensor list"

text \<open>
  The collaborators of this file that are not part of it, as parameters: the type
  promotion of \<open>TypeProperties\<close> (\<open>result_type\<close> over a tensor and the scalars folded
  into the \<open>ResultTypeState\<close> after it), and the iterator builders of \<open>TensorIterator\<close>.
  Each builder gets the output reference, \<open>self\<close> (which \<open>SelfRef\<close> stands for) and the
  inputs.
\<close>

record Engine =
  result_type :: "double Tensor \<Rightarrow> Scalar list \<Rightarrow> ScalarType"
  build :: "TensorIteratorConfig \<Rightarrow> error + TensorIterator"
  build_unary_op :: "Output \<Rightarrow> double Tensor \<Rightarrow> double Tensor \<Rightarrow> error + TensorIterator"
  build_borrowing_unary_op :: "Output \<Rightarrow> double Tensor \<Rightarrow> error + TensorIterator"
  build_borrowing_binary_op ::
    "Output \<Rightarrow> double Tensor \<Rightarrow> double Tensor \<Rightarrow> error + TensorIterator"

text \<open>The kernels behind the dispatch stubs, as parameters as well.\<close>

record Kernels =
  clamp_stub :: "TensorIterator \<Rightarrow> error + double Tensor"
  clamp_scalar_stub :: "TensorIterator \<Rightarrow> Scalar \<Rightarrow> Scalar \<Rightarrow> error + double Tensor"
  clamp_min_scalar_stub :: "TensorIterator \<Rightarrow> Scalar \<Rightarrow> error + double Tensor"
  clamp_max_scalar_stub :: "TensorIterator \<Rightarrow> Scalar \<Rightarrow> error + double Tensor"
  maximum_stub :: "TensorIterator \<Rightarrow> error + double Tensor"
  minimum_stub :: "TensorIterator \<Rightarrow> error + double Tensor"

text \<open>\<open>self.to(result_type)\<close>: the same elements under another dtype.\<close>

definition to_dtype :: "double Tensor \<Rightarrow> ScalarType \<Rightarrow> double Tensor" where
  "to_dtype t ty = t\<lparr>scalar_type := ty\<rparr>"

text \<open>\<open>at::fill_\<close>: every element of the tensor becomes the value.\<close>

definition fill_inplace :: "'a Tensor \<Rightarrow> 'a \<Rightarrow> 'a Tensor" where
  "fill_inplace t v = t\<lparr>data := replicate (length (data t)) v\<rparr>"

definition opt_list :: "'a option \<Rightarrow> 'a list" where
  "opt_list x = (case x of None \<Rightarrow> [] | Some v \<Rightarrow> [v])"

subsection \<open>Meta functions\<close>

text \<open>\<open>TORCH_META_FUNC(clamp)\<close>, lines 28 to 59.\<close>

definition clamp_meta ::
  "Engine \<Rightarrow> double Tensor \<Rightarrow> Scalar option \<Rightarrow> Scalar option \<Rightarrow> Output \<Rightarrow>
   error + TensorIterator" where
  "clamp_meta E self min' max' out =
     (if min' = None \<and> max' = None then Inl InvalidArgument
      else if isComplexType (scalar_type self) then Inl UnsupportedType
      else if \<not> isFloatingType (scalar_type self) then
        (let rt = result_type E self (opt_list min' @ opt_list max') in
         if \<not> (rt = scalar_type self \<or> (\<not> out_defined out \<or> \<not> out_is_same_self out))
         then Inl UnsafeCast
         else if isComplexType rt then Inl UnsupportedType
         else build_unary_op E out self (to_dtype self rt))
      else build_unary_op E out self (to_dtype self (scalar_type self)))"

text \<open>\<open>TORCH_META_FUNC(clamp_max)\<close>, lines 86 to 107.\<close>

definition clamp_max_meta ::
  "Engine \<Rightarrow> double Tensor \<Rightarrow> Scalar \<Rightarrow> Output \<Rightarrow> error + TensorIterator" where
  "clamp_max_meta E self max' out =
     (if isComplexType (scalar_type self) then Inl UnsupportedType
      else if isComplex max' then Inl UnsupportedType
      else if \<not> isFloatingType (scalar_type self) then
        (let rt = result_type E self [max'] in
         if \<not> (rt = scalar_type self \<or> (\<not> out_defined out \<or> \<not> out_is_same_self out))
         then Inl UnsafeCast
         else build_unary_op E out self (to_dtype self rt))
      else build_borrowing_unary_op E out self)"

text \<open>\<open>TORCH_META_FUNC(clamp_min)\<close>, lines 117 to 135.\<close>

definition clamp_min_meta ::
  "Engine \<Rightarrow> double Tensor \<Rightarrow> Scalar \<Rightarrow> Output \<Rightarrow> error + TensorIterator" where
  "clamp_min_meta E self min' out =
     (if isComplexType (scalar_type self) then Inl UnsupportedType
      else if isComplex min' then Inl UnsupportedType
      else if \<not> isFloatingType (scalar_type self) then
        (let rt = result_type E self [min'] in
         if \<not> (rt = scalar_type self \<or> \<not> out_defined out \<or> \<not> out_is_same_self out)
         then Inl UnsafeCast
         else build_unary_op E out self (to_dtype self rt))
      else build_borrowing_unary_op E out self)"

text \<open>\<open>CLAMP_CONFIG()\<close> and \<open>TORCH_META_FUNC2(clamp, Tensor)\<close>, lines 61 to 83.\<close>

definition CLAMP_CONFIG :: "Output \<Rightarrow> double Tensor \<Rightarrow> TensorIteratorConfig" where
  "CLAMP_CONFIG out self =
     \<lparr>check_mem_overlap = True,
      promote_inputs_to_common_dtype = True,
      cast_common_dtype_to_outputs = True,
      enforce_safe_casting_to_output = True,
      cfg_output = out, cfg_self = self, cfg_inputs = [self]\<rparr>"

definition add_input :: "TensorIteratorConfig \<Rightarrow> double Tensor \<Rightarrow> TensorIteratorConfig" where
  "add_input c t = c\<lparr>cfg_inputs := cfg_inputs c @ [t]\<rparr>"

definition clamp_Tensor_meta ::
  "Engine \<Rightarrow> double Tensor \<Rightarrow> double Tensor option \<Rightarrow> double Tensor option \<Rightarrow> Output \<Rightarrow>
   error + TensorIterator" where
  "clamp_Tensor_meta E self min' max' out =
     (if \<not> (min' \<noteq> None \<or> max' \<noteq> None) then Inl InvalidArgument
      else if isComplexType (scalar_type self) then Inl UnsupportedType
      else
        case (min', max') of
          (Some mn, Some mx) \<Rightarrow> build E (add_input (add_input (CLAMP_CONFIG out self) mn) mx)
        | (Some mn, None) \<Rightarrow> build E (add_input (CLAMP_CONFIG out self) mn)
        | (None, Some mx) \<Rightarrow> build E (add_input (CLAMP_CONFIG out self) mx)
        | (None, None) \<Rightarrow> Inl InvalidArgument)"



subsection \<open>Impl functions\<close>

text \<open>
  An impl function runs over the iterator its meta function built and leaves the result
  in the iterator's output, which the model returns.

  \<open>TORCH_IMPL_FUNC(clamp_out)\<close>, lines 558 to 577. \<open>||\<close> does not evaluate its second
  operand when the first holds.
\<close>

definition clamp_out ::
  "Kernels \<Rightarrow> TensorIterator \<Rightarrow> Scalar option \<Rightarrow> Scalar option \<Rightarrow> error + double Tensor" where
  "clamp_out K it min' max' =
     (case (min', max') of
        (Some mn, Some mx) \<Rightarrow>
          (case toDouble mn of
             Inl e \<Rightarrow> Inl e
           | Inr dmn \<Rightarrow>
               if d_ne dmn dmn then Inr (fill_inplace (iter_output it) NaN)
               else
                 (case toDouble mx of
                    Inl e \<Rightarrow> Inl e
                  | Inr dmx \<Rightarrow>
                      if d_ne dmx dmx then Inr (fill_inplace (iter_output it) NaN)
                      else clamp_scalar_stub K it mn mx))
      | (None, Some mx) \<Rightarrow> clamp_max_scalar_stub K it mx
      | (Some mn, None) \<Rightarrow> clamp_min_scalar_stub K it mn
      | (None, None) \<Rightarrow> Inr (iter_output it))"

text \<open>\<open>TORCH_IMPL_FUNC(clamp_Tensor_out)\<close>, lines 579 to 589.\<close>

definition clamp_Tensor_out ::
  "Kernels \<Rightarrow> TensorIterator \<Rightarrow> double Tensor option \<Rightarrow> double Tensor option \<Rightarrow>
   error + double Tensor" where
  "clamp_Tensor_out K it min' max' =
     (if min' \<noteq> None \<and> max' \<noteq> None then clamp_stub K it
      else if min' \<noteq> None then maximum_stub K it
      else if max' \<noteq> None then minimum_stub K it
      else Inr (iter_output it))"

text \<open>
  \<open>TORCH_IMPL_FUNC(clamp_max_out)\<close>, lines 591 to 601: a NaN bound fills the result with
  the bound (through \<open>wrapped_scalar_tensor(max)\<close>).
\<close>

definition clamp_max_out ::
  "Kernels \<Rightarrow> TensorIterator \<Rightarrow> Scalar \<Rightarrow> error + double Tensor" where
  "clamp_max_out K it max' =
     (case toDouble max' of
        Inl e \<Rightarrow> Inl e
      | Inr d \<Rightarrow>
          if d_ne d d then Inr (fill_inplace (iter_output it) d)
          else clamp_max_scalar_stub K it max')"


text \<open>\<open>TORCH_IMPL_FUNC(clamp_min_out)\<close>, lines 608 to 615.\<close>

definition clamp_min_out ::
  "Kernels \<Rightarrow> TensorIterator \<Rightarrow> Scalar \<Rightarrow> error + double Tensor" where
  "clamp_min_out K it min' =
     (case toDouble min' of
        Inl e \<Rightarrow> Inl e
      | Inr d \<Rightarrow>
          if d_ne d d then Inr (fill_inplace (iter_output it) d)
          else clamp_min_scalar_stub K it min')"


subsection \<open>The operators: meta, then impl\<close>

text \<open>
  A structured operator runs its meta function and, when that returns, its impl
  function. The three entry points of each operator differ in the output they hand
  to the meta function: none (\<open>at::clamp\<close>), \<open>self\<close> (\<open>at::clamp_\<close>), or the caller's
  \<open>result\<close> (\<open>at::clamp_outf\<close>).
\<close>

definition clamp_structured ::
  "Engine \<Rightarrow> Kernels \<Rightarrow> double Tensor \<Rightarrow> Scalar option \<Rightarrow> Scalar option \<Rightarrow> Output \<Rightarrow>
   error + double Tensor" where
  "clamp_structured E K self min' max' out =
     (case clamp_meta E self min' max' out of
        Inl e \<Rightarrow> Inl e
      | Inr it \<Rightarrow> clamp_out K it min' max')"

definition clamp_Tensor_structured ::
  "Engine \<Rightarrow> Kernels \<Rightarrow> double Tensor \<Rightarrow> double Tensor option \<Rightarrow> double Tensor option \<Rightarrow>
   Output \<Rightarrow> error + double Tensor" where
  "clamp_Tensor_structured E K self min' max' out =
     (case clamp_Tensor_meta E self min' max' out of
        Inl e \<Rightarrow> Inl e
      | Inr it \<Rightarrow> clamp_Tensor_out K it min' max')"

definition clamp_max_structured ::
  "Engine \<Rightarrow> Kernels \<Rightarrow> double Tensor \<Rightarrow> Scalar \<Rightarrow> Output \<Rightarrow> error + double Tensor" where
  "clamp_max_structured E K self max' out =
     (case clamp_max_meta E self max' out of
        Inl e \<Rightarrow> Inl e
      | Inr it \<Rightarrow> clamp_max_out K it max')"

definition clamp_min_structured ::
  "Engine \<Rightarrow> Kernels \<Rightarrow> double Tensor \<Rightarrow> Scalar \<Rightarrow> Output \<Rightarrow> error + double Tensor" where
  "clamp_min_structured E K self min' out =
     (case clamp_min_meta E self min' out of
        Inl e \<Rightarrow> Inl e
      | Inr it \<Rightarrow> clamp_min_out K it min')"



definition at_clamp ::
  "Engine \<Rightarrow> Kernels \<Rightarrow> double Tensor \<Rightarrow> Scalar option \<Rightarrow> Scalar option \<Rightarrow> error + double Tensor" where
  "at_clamp E K self min' max' = clamp_structured E K self min' max' None"

definition at_clamp_inplace ::
  "Engine \<Rightarrow> Kernels \<Rightarrow> double Tensor \<Rightarrow> Scalar option \<Rightarrow> Scalar option \<Rightarrow> error + double Tensor" where
  "at_clamp_inplace E K self min' max' = clamp_structured E K self min' max' (Some SelfRef)"

definition at_clamp_outf ::
  "Engine \<Rightarrow> Kernels \<Rightarrow> double Tensor \<Rightarrow> Scalar option \<Rightarrow> Scalar option \<Rightarrow> OutRef \<Rightarrow>
   error + double Tensor" where
  "at_clamp_outf E K self min' max' result = clamp_structured E K self min' max' (Some result)"

definition at_clamp_Tensor ::
  "Engine \<Rightarrow> Kernels \<Rightarrow> double Tensor \<Rightarrow> double Tensor option \<Rightarrow> double Tensor option \<Rightarrow>
   error + double Tensor" where
  "at_clamp_Tensor E K self min' max' = clamp_Tensor_structured E K self min' max' None"

definition at_clamp_Tensor_inplace ::
  "Engine \<Rightarrow> Kernels \<Rightarrow> double Tensor \<Rightarrow> double Tensor option \<Rightarrow> double Tensor option \<Rightarrow>
   error + double Tensor" where
  "at_clamp_Tensor_inplace E K self min' max' =
     clamp_Tensor_structured E K self min' max' (Some SelfRef)"

definition at_clamp_Tensor_outf ::
  "Engine \<Rightarrow> Kernels \<Rightarrow> double Tensor \<Rightarrow> double Tensor option \<Rightarrow> double Tensor option \<Rightarrow>
   OutRef \<Rightarrow> error + double Tensor" where
  "at_clamp_Tensor_outf E K self min' max' result =
     clamp_Tensor_structured E K self min' max' (Some result)"

subsection \<open>The clip alias\<close>

text \<open>Lines 622 to 645: three entry points, each for scalar and for tensor bounds.\<close>

definition clip_out ::
  "Engine \<Rightarrow> Kernels \<Rightarrow> double Tensor \<Rightarrow> Scalar option \<Rightarrow> Scalar option \<Rightarrow> OutRef \<Rightarrow>
   error + double Tensor" where
  "clip_out E K self min' max' result = at_clamp_outf E K self min' max' result"

definition clip_Tensor_out ::
  "Engine \<Rightarrow> Kernels \<Rightarrow> double Tensor \<Rightarrow> double Tensor option \<Rightarrow> double Tensor option \<Rightarrow>
   OutRef \<Rightarrow> error + double Tensor" where
  "clip_Tensor_out E K self min' max' result = at_clamp_Tensor_outf E K self min' max' result"

definition clip ::
  "Engine \<Rightarrow> Kernels \<Rightarrow> double Tensor \<Rightarrow> Scalar option \<Rightarrow> Scalar option \<Rightarrow> error + double Tensor" where
  "clip E K self min' max' = at_clamp E K self min' max'"

definition clip_Tensor ::
  "Engine \<Rightarrow> Kernels \<Rightarrow> double Tensor \<Rightarrow> double Tensor option \<Rightarrow> double Tensor option \<Rightarrow>
   error + double Tensor" where
  "clip_Tensor E K self min' max' = at_clamp_Tensor E K self min' max'"

definition clip_inplace ::
  "Engine \<Rightarrow> Kernels \<Rightarrow> double Tensor \<Rightarrow> Scalar option \<Rightarrow> Scalar option \<Rightarrow> error + double Tensor" where
  "clip_inplace E K self min' max' = at_clamp_inplace E K self min' max'"

definition clip_Tensor_inplace ::
  "Engine \<Rightarrow> Kernels \<Rightarrow> double Tensor \<Rightarrow> double Tensor option \<Rightarrow> double Tensor option \<Rightarrow>
   error + double Tensor" where
  "clip_Tensor_inplace E K self min' max' = at_clamp_Tensor_inplace E K self min' max'"

section \<open>Reductions with indices\<close>

text \<open>
  The helpers of \<open>ReduceOpsUtils\<close>, \<open>WrapDimUtils\<close> and \<open>Resize\<close> and the reduction kernels
  are not part of this file; they are parameters. Each may raise. A dimension is an
  \<open>int64_t\<close> in the source and an \<open>int\<close> here; the indices tensor holds \<open>int\<close>s.
  \<open>resize_reduction_with_indices\<close> gets the caller's output buffers when there are some.
\<close>

type_synonym Stub =
  "double Tensor \<Rightarrow> int Tensor \<Rightarrow> double Tensor \<Rightarrow> int \<Rightarrow> bool \<Rightarrow>
   error + (double Tensor \<times> int Tensor)"

record ReduceEnv =
  maybe_wrap_dim :: "int \<Rightarrow> nat \<Rightarrow> error + int"
  zero_numel_check_dims :: "double Tensor \<Rightarrow> int \<Rightarrow> error + unit"
  resize_reduction_with_indices ::
    "(double Tensor \<times> int Tensor) option \<Rightarrow> double Tensor \<Rightarrow> int \<Rightarrow> bool \<Rightarrow> ScalarType \<Rightarrow>
     error + (double Tensor \<times> int Tensor)"
  get_zero_numel_tensor_size :: "double Tensor \<Rightarrow> int \<Rightarrow> bool \<Rightarrow> error + nat list"
  resize_output_values :: "double Tensor \<Rightarrow> nat list \<Rightarrow> double Tensor"
  resize_output_indices :: "int Tensor \<Rightarrow> nat list \<Rightarrow> int Tensor"
  dimreduce_return_trivial_no_ident ::
    "double Tensor \<Rightarrow> double Tensor \<Rightarrow> int \<Rightarrow> bool \<Rightarrow> error + (bool \<times> double Tensor)"
  max_stub :: Stub
  min_stub :: Stub
  mode_stub :: Stub

text \<open>
  \<open>values.fill_(self)\<close> with a tensor as the value: \<open>fill_\<close> takes a tensor of no
  dimension and writes its one element everywhere.
\<close>

definition fill_Tensor :: "'a Tensor \<Rightarrow> 'a Tensor \<Rightarrow> error + 'a Tensor" where
  "fill_Tensor t v =
     (if dim v \<noteq> 0 then Inl InvalidArgument
      else case data v of
             [] \<Rightarrow> Inl InvalidArgument
           | x # _ \<Rightarrow> Inr (fill_inplace t x))"

text \<open>\<open>TORCH_PRECOMPUTE_META_FUNC2(max, dim)\<close> and \<open>(min, dim)\<close>, lines 186 to 203.\<close>

definition max_dim_meta ::
  "ReduceEnv \<Rightarrow> (double Tensor \<times> int Tensor) option \<Rightarrow> double Tensor \<Rightarrow> int \<Rightarrow> bool \<Rightarrow>
   error + (int \<times> double Tensor \<times> int Tensor)" where
  "max_dim_meta R outs self d keepdim =
     (case maybe_wrap_dim R d (dim self) of
        Inl e \<Rightarrow> Inl e
      | Inr d1 \<Rightarrow>
          (case zero_numel_check_dims R self d1 of
             Inl e \<Rightarrow> Inl e
           | Inr _ \<Rightarrow>
               if is_complex self then Inl UnsupportedType
               else
                 (case resize_reduction_with_indices R outs self d1 keepdim (scalar_type self) of
                    Inl e \<Rightarrow> Inl e
                  | Inr (values, indices) \<Rightarrow>
                      (case maybe_wrap_dim R d1 (dim self) of
                         Inl e \<Rightarrow> Inl e
                       | Inr d2 \<Rightarrow> Inr (d2, values, indices)))))"

definition min_dim_meta ::
  "ReduceEnv \<Rightarrow> (double Tensor \<times> int Tensor) option \<Rightarrow> double Tensor \<Rightarrow> int \<Rightarrow> bool \<Rightarrow>
   error + (int \<times> double Tensor \<times> int Tensor)" where
  "min_dim_meta R outs self d keepdim =
     (case maybe_wrap_dim R d (dim self) of
        Inl e \<Rightarrow> Inl e
      | Inr d1 \<Rightarrow>
          (case zero_numel_check_dims R self d1 of
             Inl e \<Rightarrow> Inl e
           | Inr _ \<Rightarrow>
               if is_complex self then Inl UnsupportedType
               else
                 (case resize_reduction_with_indices R outs self d1 keepdim (scalar_type self) of
                    Inl e \<Rightarrow> Inl e
                  | Inr (values, indices) \<Rightarrow>
                      (case maybe_wrap_dim R d1 (dim self) of
                         Inl e \<Rightarrow> Inl e
                       | Inr d2 \<Rightarrow> Inr (d2, values, indices)))))"

text \<open>\<open>minmax_out_impl\<close>, lines 497 to 514.\<close>

definition minmax_out_impl ::
  "double Tensor \<Rightarrow> int \<Rightarrow> bool \<Rightarrow> double Tensor \<Rightarrow> int Tensor \<Rightarrow> Stub \<Rightarrow>
   error + (double Tensor \<times> int Tensor)" where
  "minmax_out_impl self d keepdim values indices stub =
     (if numel self > 0 then
        (if numel self = 1 \<and> dim self = 0 then
           (case fill_Tensor values self of
              Inl e \<Rightarrow> Inl e
            | Inr values' \<Rightarrow> Inr (values', fill_inplace indices 0))
         else stub values indices self d keepdim)
      else Inr (values, indices))"

text \<open>\<open>TORCH_IMPL_FUNC(max_out)\<close> and \<open>(min_out)\<close>, lines 516 to 532.\<close>

definition max_out ::
  "ReduceEnv \<Rightarrow> double Tensor \<Rightarrow> int \<Rightarrow> bool \<Rightarrow> double Tensor \<Rightarrow> int Tensor \<Rightarrow>
   error + (double Tensor \<times> int Tensor)" where
  "max_out R self d keepdim values indices =
     minmax_out_impl self d keepdim values indices (max_stub R)"

definition min_out ::
  "ReduceEnv \<Rightarrow> double Tensor \<Rightarrow> int \<Rightarrow> bool \<Rightarrow> double Tensor \<Rightarrow> int Tensor \<Rightarrow>
   error + (double Tensor \<times> int Tensor)" where
  "min_out R self d keepdim values indices =
     minmax_out_impl self d keepdim values indices (min_stub R)"

text \<open>The operators \<open>max.dim\<close> and \<open>min.dim\<close>: meta, then impl with the dimension the meta
  function precomputed.\<close>

definition max_dim ::
  "ReduceEnv \<Rightarrow> (double Tensor \<times> int Tensor) option \<Rightarrow> double Tensor \<Rightarrow> int \<Rightarrow> bool \<Rightarrow>
   error + (double Tensor \<times> int Tensor)" where
  "max_dim R outs self d keepdim =
     (case max_dim_meta R outs self d keepdim of
        Inl e \<Rightarrow> Inl e
      | Inr (d', values, indices) \<Rightarrow> max_out R self d' keepdim values indices)"

definition min_dim ::
  "ReduceEnv \<Rightarrow> (double Tensor \<times> int Tensor) option \<Rightarrow> double Tensor \<Rightarrow> int \<Rightarrow> bool \<Rightarrow>
   error + (double Tensor \<times> int Tensor)" where
  "min_dim R outs self d keepdim =
     (case min_dim_meta R outs self d keepdim of
        Inl e \<Rightarrow> Inl e
      | Inr (d', values, indices) \<Rightarrow> min_out R self d' keepdim values indices)"

text \<open>
  \<open>mode_out\<close>, lines 456 to 495. \<open>resize_output\<close> and \<open>resize_\<close> are the resizing
  parameters of the environment; the propagation of dimension names is left out.
\<close>

definition mode_out ::
  "ReduceEnv \<Rightarrow> double Tensor \<Rightarrow> int \<Rightarrow> bool \<Rightarrow> double Tensor \<Rightarrow> int Tensor \<Rightarrow>
   error + (double Tensor \<times> int Tensor)" where
  "mode_out R self d keepdim values indices =
     (if \<not> (fst (device self) = CPU \<or> fst (device self) = CUDA) then Inl UnsupportedDevice
      else if layout self \<noteq> Strided then Inl UnsupportedLayout
      else if device self \<noteq> device values then Inl DeviceMismatch
      else if device self \<noteq> device indices then Inl DeviceMismatch
      else if scalar_type self \<noteq> scalar_type values then Inl DtypeMismatch
      else if scalar_type indices \<noteq> kLong then Inl DtypeMismatch
      else
        case maybe_wrap_dim R d (dim self) of
          Inl e \<Rightarrow> Inl e
        | Inr d1 \<Rightarrow>
            if numel self = 0 then
              (case get_zero_numel_tensor_size R self d1 keepdim of
                 Inl e \<Rightarrow> Inl e
               | Inr szs \<Rightarrow> Inr (resize_output_values R values szs, resize_output_indices R indices szs))
            else
              (case dimreduce_return_trivial_no_ident R values self d1 keepdim of
                 Inl e \<Rightarrow> Inl e
               | Inr (trivial, values') \<Rightarrow>
                   if trivial then
                     (if dim values' \<noteq> 0 then Inl InternalAssert
                      else Inr (values', fill_inplace (resize_output_indices R indices []) 0))
                   else mode_stub R values' indices self d1 keepdim))"

section \<open>Set membership\<close>

text \<open>
  \<open>isin\<close> on tensors of a supported dtype. The elements are \<open>double\<close>s (an integer is a
  finite value) and are compared by the \<open>==\<close> of IEEE 754, so a NaN equals nothing, itself
  included. The operands are read in their flattened form (\<open>data\<close>), as \<open>ravel\<close>, \<open>_unique\<close>
  and the kernel read them.
\<close>

fun check_for_unsupported_isin_dtype :: "ScalarType \<Rightarrow> error + unit" where
  "check_for_unsupported_isin_dtype ty =
     (if ty \<noteq> kBool \<and> ty \<noteq> kBFloat16 \<and> ty \<noteq> kComplexFloat \<and> ty \<noteq> kComplexDouble
      then Inr () else Inl UnsupportedType)"

text \<open>
  \<open>at::_unique(x, /*sorted=*/false, /*return_inverse=*/true)\<close> is a parameter: it gives
  the values of \<open>x\<close>, no two of them equal by \<open>==\<close>, in an order of its own choice, and for
  every position of \<open>x\<close> a position among them that holds its value. \<open>unique_contract\<close>
  says so. It leaves open whether the NaNs of \<open>x\<close> are kept apart or merged.
\<close>

type_synonym Unique = "double list \<Rightarrow> double list \<times> nat list"

definition pairwise_unequal :: "double list \<Rightarrow> bool" where
  "pairwise_unequal xs =
     (\<forall>i < length xs. \<forall>j < length xs. i \<noteq> j \<longrightarrow> \<not> d_eq (xs ! i) (xs ! j))"

definition unique_contract :: "Unique \<Rightarrow> bool" where
  "unique_contract uq =
     (\<forall>xs. case uq xs of
            (u, inv_idx) \<Rightarrow>
              pairwise_unequal u \<and> set u = set xs \<and> length inv_idx = length xs \<and>
              (\<forall>i < length xs. inv_idx ! i < length u \<and> u ! (inv_idx ! i) = xs ! i))"

text \<open>One such function: the values by first occurrence, each position looked up.\<close>

fun index_of :: "'a list \<Rightarrow> 'a \<Rightarrow> nat" where
  "index_of [] x = 0"
| "index_of (y # ys) x = (if x = y then 0 else Suc (index_of ys x))"

definition unique_first :: Unique where
  "unique_first xs = (let u = rev (remdups (rev xs)) in (u, map (index_of u) xs))"

text \<open>
  Modelled from the spec: the stable ascending sort of \<open>Tensor::sort\<close> (not part of this
  file), which returns the sorted values and the permutation that sorted them. Equal
  values keep the order of their positions. The order is the one of \<open><\<close> on the values
  that are not NaN, with the NaNs after all of them.
\<close>

fun sort_rank :: "double \<Rightarrow> nat \<times> real" where
  "sort_rank NInf = (0, 0)"
| "sort_rank (Fin x) = (1, x)"
| "sort_rank PInf = (2, 0)"
| "sort_rank NaN = (3, 0)"

definition sort_stable :: "double list \<Rightarrow> double list \<times> nat list" where
  "sort_stable xs =
     (let ps = sort_key (\<lambda>p. sort_rank (fst p)) (zip xs [0 ..< length xs])
      in (map fst ps, map snd ps))"

text \<open>
  \<open>at::empty_like\<close> gives storage whose contents are not defined; the model reads them
  from a parameter, one value for every position.
\<close>

definition empty_like :: "(nat \<Rightarrow> bool) \<Rightarrow> nat \<Rightarrow> bool list" where
  "empty_like junk n = map junk [0 ..< n]"

text \<open>
  \<open>index_copy_(0, index, source)\<close>: \<open>self[index[i]] = source[i]\<close> for every \<open>i\<close> in turn;
  \<open>at::index(self, {index})\<close>: the elements of \<open>self\<close> at the indices. Both raise on an
  index out of range.
\<close>

definition index_copy :: "'b list \<Rightarrow> nat list \<Rightarrow> 'b list \<Rightarrow> error + 'b list" where
  "index_copy self index source =
     (if length index \<noteq> length source \<or> (\<exists>i \<in> set index. length self \<le> i)
      then Inl IndexOutOfRange
      else Inr (fold (\<lambda>(i, v) m. m[i := v]) (zip index source) self))"

definition index_select :: "'b list \<Rightarrow> nat list \<Rightarrow> error + 'b list" where
  "index_select self index =
     (if \<exists>i \<in> set index. length self \<le> i then Inl IndexOutOfRange
      else Inr (map (\<lambda>i. self ! i) index))"

text \<open>
  \<open>isin_sorting\<close>, lines 342 to 389. Its third step, the mask of adjacent duplicates
  over the sorted values, is \<open>isin_duplicate_mask\<close>: the comparison (\<open>eq\<close>, or \<open>ne\<close> under
  \<open>invert\<close>) of every value but the first with its predecessor is copied into all cells
  but the last of a fresh boolean tensor, and \<open>index_put_({-1}, invert)\<close> sets the last
  cell.
\<close>

definition isin_duplicate_mask :: "(nat \<Rightarrow> bool) \<Rightarrow> bool \<Rightarrow> double list \<Rightarrow> bool list" where
  "isin_duplicate_mask junk invert sorted_elements =
     (let n = length sorted_elements;
          sorted_except_first = drop 1 sorted_elements;
          sorted_except_last = take (n - 1) sorted_elements;
          compared =
            (if invert then map2 d_ne sorted_except_first sorted_except_last
             else map2 d_eq sorted_except_first sorted_except_last)
      in (compared @ drop (n - 1) (empty_like junk n))[n - 1 := invert])"

text \<open>
  The function itself. \<open>index_put_\<close> at \<open>-1\<close> raises on an empty tensor. The result is
  the new contents of \<open>out\<close>.
\<close>

definition isin_sorting ::
  "Unique \<Rightarrow> (nat \<Rightarrow> bool) \<Rightarrow> (nat \<Rightarrow> bool) \<Rightarrow>
   double Tensor \<Rightarrow> double Tensor \<Rightarrow> bool \<Rightarrow> bool \<Rightarrow> bool Tensor \<Rightarrow> error + bool Tensor" where
  "isin_sorting uq junk1 junk2 elements test_elements assume_unique invert out =
     (let (elements_flat, unique_order) =
            (if assume_unique then (data elements, []) else uq (data elements));
          test_elements_flat =
            (if assume_unique then data test_elements else fst (uq (data test_elements)));
          all_elements = elements_flat @ test_elements_flat;
          (sorted_elements, sorted_order) = sort_stable all_elements;
          n = length sorted_elements
      in if n = 0 then Inl IndexOutOfRange
         else
           case index_copy (empty_like junk2 n) sorted_order
                  (isin_duplicate_mask junk1 invert sorted_elements) of
             Inl e \<Rightarrow> Inl e
           | Inr mask' \<Rightarrow>
               if assume_unique then Inr (out\<lparr>data := take (numel elements) mask'\<rparr>)
               else
                 (case index_select mask' unique_order of
                    Inl e \<Rightarrow> Inl e
                  | Inr picked \<Rightarrow> Inr (out\<lparr>data := picked\<rparr>)))"

text \<open>
  Modelled from the spec: the kernel behind \<open>isin_default_stub\<close> (not part of this file):
  \<open>mask[i] = invert XOR (elements[i] \<in> test_elements)\<close>, where an element is in
  \<open>test_elements\<close> when it is \<open>==\<close> to one of them.
\<close>

definition isin_default_stub ::
  "double Tensor \<Rightarrow> double Tensor \<Rightarrow> bool \<Rightarrow> bool Tensor \<Rightarrow> bool Tensor" where
  "isin_default_stub elements test_elements invert out =
     out\<lparr>data := map (\<lambda>e. invert \<noteq> (\<exists>t \<in> set (data test_elements). d_eq e t))
                  (data elements)\<rparr>"

text \<open>
  The brute-force branch of \<open>isin_Tensor_Tensor_out\<close>:
  \<open>out.fill_(invert); isin_default_stub(..., elements, test_elements, invert, out);\<close>
\<close>

definition isin_brute_force ::
  "double Tensor \<Rightarrow> double Tensor \<Rightarrow> bool \<Rightarrow> bool Tensor \<Rightarrow> bool Tensor" where
  "isin_brute_force elements test_elements invert out =
     isin_default_stub elements test_elements invert (fill_inplace out invert)"

text \<open>
  The condition of the size heuristic, lines 686 and 687, on the two element counts:
  \<open>test_elements.numel() < static_cast<int64_t>(10.0f * std::pow(static_cast<double>(elements.numel()), 0.145))\<close>.
  The source computes in \<open>double\<close>: the count is converted, \<open>std::pow\<close> of the C library
  returns a rounded power, the literal \<open>0.145\<close> is the \<open>double\<close> next to it and the
  product is rounded again. None of these operations is part of this file, and the
  result of \<open>std::pow\<close> is not fixed by IEEE 754; they are parameters, with a \<open>double\<close>
  read as the real number it is. \<open>static_cast<int64_t>\<close> drops the fraction; the product
  is a few thousand at most for the count of a tensor, so the conversion stays in range.
\<close>

record FloatOps =
  to_double :: "int \<Rightarrow> real"
  std_pow :: "real \<Rightarrow> real \<Rightarrow> real"
  double_mul :: "real \<Rightarrow> real \<Rightarrow> real"
  literal_0145 :: real

definition truncate :: "real \<Rightarrow> int" where
  "truncate x = (if 0 \<le> x then \<lfloor>x\<rfloor> else \<lceil>x\<rceil>)"

definition isin_heuristic_value :: "FloatOps \<Rightarrow> nat \<Rightarrow> real" where
  "isin_heuristic_value F elements_numel =
     double_mul F 10 (std_pow F (to_double F (int elements_numel)) (literal_0145 F))"

definition isin_uses_brute_force :: "FloatOps \<Rightarrow> nat \<Rightarrow> nat \<Rightarrow> bool" where
  "isin_uses_brute_force F elements_numel test_elements_numel =
     (int test_elements_numel < truncate (isin_heuristic_value F elements_numel))"

text \<open>\<open>TORCH_IMPL_FUNC(isin_Tensor_Tensor_out)\<close>, lines 677 to 693.\<close>

definition isin_Tensor_Tensor_out ::
  "FloatOps \<Rightarrow> Unique \<Rightarrow> (nat \<Rightarrow> bool) \<Rightarrow> (nat \<Rightarrow> bool) \<Rightarrow>
   double Tensor \<Rightarrow> double Tensor \<Rightarrow> bool \<Rightarrow> bool \<Rightarrow> bool Tensor \<Rightarrow> error + bool Tensor" where
  "isin_Tensor_Tensor_out F uq junk1 junk2 elements test_elements assume_unique invert out =
     (if numel elements = 0 then Inr out
      else if isin_uses_brute_force F (numel elements) (numel test_elements)
      then Inr (isin_brute_force elements test_elements invert out)
      else isin_sorting uq junk1 junk2 elements test_elements assume_unique invert out)"

section \<open>Collaborators for concrete runs\<close>

text \<open>
  The theorems below hold for every engine and every kernel. To run the operators on
  concrete inputs, this section gives one of each.
\<close>

definition cpu_tensor :: "ScalarType \<Rightarrow> nat list \<Rightarrow> 'a list \<Rightarrow> 'a Tensor" where
  "cpu_tensor ty shape xs =
     \<lparr>scalar_type = ty, device = (CPU, 0), layout = Strided, is_quantized = False,
      sizes = shape, data = xs\<rparr>"

text \<open>
  Modelled from the spec: the type promotion of a tensor with scalars (\<open>result_type\<close> of
  \<open>TypeProperties\<close>, not part of this file). The categories are ordered
  bool < integer < floating < complex; scalars of a higher category than the tensor's
  lift the result to the default dtype of their category, and otherwise the tensor's
  dtype stays.
\<close>

fun category :: "ScalarType \<Rightarrow> nat" where
  "category kBool = 0"
| "category kHalf = 2"
| "category kFloat = 2"
| "category kDouble = 2"
| "category kBFloat16 = 2"
| "category kComplexHalf = 3"
| "category kComplexFloat = 3"
| "category kComplexDouble = 3"
| "category _ = 1"

fun scalar_category :: "Scalar \<Rightarrow> nat" where
  "scalar_category (ScalarBool b) = 0"
| "scalar_category (ScalarInt i) = 1"
| "scalar_category (ScalarDouble d) = 2"
| "scalar_category (ScalarComplex re im) = 3"

definition default_dtype_of_category :: "nat \<Rightarrow> ScalarType" where
  "default_dtype_of_category c =
     (if c = 0 then kBool else if c = 1 then kLong else if c = 2 then kFloat else kComplexFloat)"

definition spec_result_type :: "double Tensor \<Rightarrow> Scalar list \<Rightarrow> ScalarType" where
  "spec_result_type self scalars =
     (let c = fold max (map scalar_category scalars) 0 in
      if category (scalar_type self) < c then default_dtype_of_category c
      else scalar_type self)"

text \<open>
  A plain engine: the output is the caller's when there is one and a tensor like the
  first input otherwise; the inputs are kept as they are. It checks nothing and
  broadcasts nothing.
\<close>

definition resolve_output :: "Output \<Rightarrow> double Tensor \<Rightarrow> double Tensor \<Rightarrow> double Tensor" where
  "resolve_output out self fresh =
     (case out of None \<Rightarrow> fresh | Some SelfRef \<Rightarrow> self | Some (OtherRef t) \<Rightarrow> t)"

definition plain_engine :: Engine where
  "plain_engine =
     \<lparr>result_type = spec_result_type,
      build = (\<lambda>c. Inr \<lparr>iter_output = resolve_output (cfg_output c) (cfg_self c) (cfg_self c),
                         iter_inputs = cfg_inputs c\<rparr>),
      build_unary_op = (\<lambda>out self a. Inr \<lparr>iter_output = resolve_output out self a,
                                            iter_inputs = [a]\<rparr>),
      build_borrowing_unary_op = (\<lambda>out self. Inr \<lparr>iter_output = resolve_output out self self,
                                                    iter_inputs = [self]\<rparr>),
      build_borrowing_binary_op = (\<lambda>out self other. Inr \<lparr>iter_output = resolve_output out self self,
                                                           iter_inputs = [self, other]\<rparr>)\<rparr>"

text \<open>
  Reference kernels. The scalar kernels apply the plain elementwise formulas
  \<open>std::max(a, min)\<close> and \<open>std::min(a, max)\<close>, which return \<open>a\<close> when the comparison with
  the bound is false; the tensor kernels propagate a NaN of either operand.
\<close>

definition d_lt :: "double \<Rightarrow> double \<Rightarrow> bool" where
  "d_lt a b = (d_ge b a \<and> d_ne a b)"

definition std_max :: "double \<Rightarrow> double \<Rightarrow> double" where
  "std_max a b = (if d_lt a b then b else a)"

definition std_min :: "double \<Rightarrow> double \<Rightarrow> double" where
  "std_min a b = (if d_lt b a then b else a)"

definition nan_max :: "double \<Rightarrow> double \<Rightarrow> double" where
  "nan_max a b = (if d_ne a a \<or> d_ne b b then NaN else std_max a b)"

definition nan_min :: "double \<Rightarrow> double \<Rightarrow> double" where
  "nan_min a b = (if d_ne a a \<or> d_ne b b then NaN else std_min a b)"

definition unary_kernel :: "(double \<Rightarrow> double) \<Rightarrow> TensorIterator \<Rightarrow> error + double Tensor" where
  "unary_kernel f it =
     (case iter_inputs it of
        a # _ \<Rightarrow> Inr ((iter_output it)\<lparr>data := map f (data a)\<rparr>)
      | [] \<Rightarrow> Inl InternalAssert)"

definition binary_kernel ::
  "(double \<Rightarrow> double \<Rightarrow> double) \<Rightarrow> TensorIterator \<Rightarrow> error + double Tensor" where
  "binary_kernel f it =
     (case iter_inputs it of
        a # b # _ \<Rightarrow> Inr ((iter_output it)\<lparr>data := map2 f (data a) (data b)\<rparr>)
      | _ \<Rightarrow> Inl InternalAssert)"

definition ternary_kernel ::
  "(double \<Rightarrow> double \<Rightarrow> double \<Rightarrow> double) \<Rightarrow> TensorIterator \<Rightarrow> error + double Tensor" where
  "ternary_kernel f it =
     (case iter_inputs it of
        a # b # c # _ \<Rightarrow>
          Inr ((iter_output it)\<lparr>data := map2 (\<lambda>x (y, z). f x y z) (data a) (zip (data b) (data c))\<rparr>)
      | _ \<Rightarrow> Inl InternalAssert)"

definition reference_kernels :: Kernels where
  "reference_kernels =
     \<lparr>clamp_stub = ternary_kernel (\<lambda>x lo hi. nan_min (nan_max x lo) hi),
      clamp_scalar_stub = (\<lambda>it mn mx.
        case toDouble mn of
          Inl e \<Rightarrow> Inl e
        | Inr lo \<Rightarrow>
            (case toDouble mx of
               Inl e \<Rightarrow> Inl e
             | Inr hi \<Rightarrow> unary_kernel (\<lambda>x. std_min (std_max x lo) hi) it)),
      clamp_min_scalar_stub = (\<lambda>it mn.
        case toDouble mn of
          Inl e \<Rightarrow> Inl e
        | Inr lo \<Rightarrow> unary_kernel (\<lambda>x. std_max x lo) it),
      clamp_max_scalar_stub = (\<lambda>it mx.
        case toDouble mx of
          Inl e \<Rightarrow> Inl e
        | Inr hi \<Rightarrow> unary_kernel (\<lambda>x. std_min x hi) it),
      maximum_stub = binary_kernel nan_max,
      minimum_stub = binary_kernel nan_min\<rparr>"

text \<open>
  Floating-point operations without rounding, to run the size heuristic of \<open>isin\<close> on
  concrete counts.
\<close>

definition unrounded :: FloatOps where
  "unrounded =
     \<lparr>to_double = real_of_int, std_pow = (powr), double_mul = (*), literal_0145 = 0.145\<rparr>"

text \<open>A reduction environment that takes the shapes and buffers as they are.\<close>

definition no_kernel :: Stub where
  "no_kernel values indices self d keepdim = Inl NotYetImplemented"

definition plain_reduce_env :: ReduceEnv where
  "plain_reduce_env =
     \<lparr>maybe_wrap_dim = (\<lambda>d n. if - int (max n 1) \<le> d \<and> d < int (max n 1)
                               then Inr (if d < 0 then d + int (max n 1) else d)
                               else Inl IndexOutOfRange),
      zero_numel_check_dims = (\<lambda>self d. Inr ()),
      resize_reduction_with_indices = (\<lambda>outs self d keepdim ty.
        case outs of
          Some vi \<Rightarrow> Inr vi
        | None \<Rightarrow> Inr (cpu_tensor ty [] [], cpu_tensor kLong [] [])),
      get_zero_numel_tensor_size = (\<lambda>self d keepdim. Inr (sizes self)),
      resize_output_values = (\<lambda>t szs. t\<lparr>sizes := szs\<rparr>),
      resize_output_indices = (\<lambda>t szs. t\<lparr>sizes := szs\<rparr>),
      dimreduce_return_trivial_no_ident = (\<lambda>values self d keepdim. Inr (False, values)),
      max_stub = no_kernel,
      min_stub = no_kernel,
      mode_stub = no_kernel\<rparr>"

section \<open>Theorems: set membership\<close>

subsection \<open>Writing through a permutation\<close>

lemma fold_update_length:
  "length (fold (\<lambda>(i, v) m. m[i := v]) ivs m) = length m"
  by (induction ivs arbitrary: m) (auto split: prod.splits)

lemma fold_update_other:
  "j \<notin> fst ` set ivs \<Longrightarrow> fold (\<lambda>(i, v) m. m[i := v]) ivs m ! j = m ! j"
  by (induction ivs arbitrary: m) (auto split: prod.splits)

lemma fold_update_nth:
  "distinct idx \<Longrightarrow> length idx = length src \<Longrightarrow> \<forall>i \<in> set idx. i < length m \<Longrightarrow>
   p < length idx \<Longrightarrow>
   fold (\<lambda>(i, v) m. m[i := v]) (zip idx src) m ! (idx ! p) = src ! p"
proof (induction idx arbitrary: src m p)
  case Nil
  then show ?case by simp
next
  case (Cons a idx)
  then obtain v src' where src: "src = v # src'" by (cases src) auto
  show ?case
  proof (cases p)
    case 0
    have "a \<notin> fst ` set (zip idx src')"
      using Cons.prems(1) by (auto dest: set_zip_leftD)
    then show ?thesis
      using 0 src Cons.prems by (simp add: fold_update_other)
  next
    case (Suc p')
    then show ?thesis
      using src Cons.prems Cons.IH[of src' "m[a := v]" p'] by simp
  qed
qed

lemma index_copy_nth:
  assumes "distinct idx" "length idx = length src" "\<forall>i \<in> set idx. i < length m"
  shows "\<exists>m'. index_copy m idx src = Inr m' \<and> length m' = length m \<and>
           (\<forall>p < length idx. m' ! (idx ! p) = src ! p)"
  using assms by (auto simp: index_copy_def fold_update_length fold_update_nth)

subsection \<open>Comparing doubles\<close>

lemma d_eq_imp_eq: "d_eq x y \<Longrightarrow> x = y"
  by (cases x; cases y) auto

lemma d_eq_iff_left: "x \<noteq> NaN \<Longrightarrow> d_eq x y \<longleftrightarrow> x = y"
  by (cases x; cases y) auto

lemma d_eq_iff_right: "y \<noteq> NaN \<Longrightarrow> d_eq x y \<longleftrightarrow> x = y"
  by (cases x; cases y) auto

lemma d_eq_NaN_right: "\<not> d_eq x NaN"
  by (cases x) auto

lemma sort_rank_eq_iff: "sort_rank x = sort_rank y \<longleftrightarrow> x = y"
  by (cases x; cases y) auto

subsection \<open>The stable sort of the concatenation\<close>

text \<open>
  In a list sorted by a key, an entry that is the first of its key is followed by an
  entry of the same key exactly when a later entry has that key.
\<close>

lemma sorted_next_equal_iff:
  fixes f :: "'b \<Rightarrow> 'k::linorder"
  assumes "sorted (map f (A @ x # B))"
  shows "(B \<noteq> [] \<and> f (hd B) = f x) \<longleftrightarrow> filter (\<lambda>p. f p = f x) B \<noteq> []"
proof (cases B)
  case Nil
  then show ?thesis by simp
next
  case (Cons b B')
  have s: "sorted (map f (x # b # B'))"
    using assms Cons by (simp add: sorted_append)
  show ?thesis
  proof
    assume "B \<noteq> [] \<and> f (hd B) = f x"
    then show "filter (\<lambda>p. f p = f x) B \<noteq> []" using Cons by simp
  next
    assume "filter (\<lambda>p. f p = f x) B \<noteq> []"
    then obtain y where y: "y \<in> set B" "f y = f x"
      by (metis (mono_tags, lifting) filter_False)
    have "f x \<le> f b" using s by simp
    moreover have "f b \<le> f y" using s y Cons by auto
    ultimately show "B \<noteq> [] \<and> f (hd B) = f x" using y Cons by simp
  qed
qed

lemma sort_stable_facts:
  fixes xs :: "double list"
  defines "ps \<equiv> sort_key (\<lambda>p. sort_rank (fst p)) (zip xs [0 ..< length xs])"
  shows "length ps = length xs"
    and "distinct (map snd ps)"
    and "set (map snd ps) = {0 ..< length xs}"
    and "sorted (map (\<lambda>p. sort_rank (fst p)) ps)"
    and "\<forall>q < length ps. fst (ps ! q) = xs ! snd (ps ! q) \<and> snd (ps ! q) < length xs"
proof -
  let ?zs = "zip xs [0 ..< length xs]"
  have sp: "set ps = set ?zs" and dp: "distinct ps"
    unfolding ps_def by (simp_all add: distinct_zipI2)
  have inj: "inj_on snd (set ?zs)"
    by (rule inj_onI) (auto simp: set_zip)
  show "length ps = length xs" unfolding ps_def by simp
  show "distinct (map snd ps)"
    using dp inj sp by (simp add: distinct_map)
  have "snd ` set ?zs = {0 ..< length xs}"
    by (metis length_upt map_snd_zip minus_nat.diff_0 set_map set_upt)
  then show "set (map snd ps) = {0 ..< length xs}"
    using sp by simp
  show "sorted (map (\<lambda>p. sort_rank (fst p)) ps)" unfolding ps_def by simp
  have "\<forall>p \<in> set ps. fst p = xs ! snd p \<and> snd p < length xs"
    using sp by (auto simp: set_zip)
  then show "\<forall>q < length ps. fst (ps ! q) = xs ! snd (ps ! q) \<and> snd (ps ! q) < length xs"
    by simp
qed

lemma filter_zip_first_part:
  assumes "\<forall>j < length es. j \<noteq> i \<longrightarrow> es ! j \<noteq> es ! i" "i < length es"
  shows "filter (\<lambda>p. fst p = es ! i) (zip es [0 ..< length es]) = [(es ! i, i)]"
  using assms
proof (induction es arbitrary: i rule: rev_induct)
  case Nil
  then show ?case by simp
next
  case (snoc x es)
  show ?case
  proof (cases "i < length es")
    case True
    have "(es @ [x]) ! length es \<noteq> (es @ [x]) ! i"
      using snoc.prems(1) True by (metis length_append_singleton less_Suc_eq nat_neq_iff)
    then have xi: "x \<noteq> es ! i" using True by (simp add: nth_append)
    have "\<forall>j < length es. j \<noteq> i \<longrightarrow> es ! j \<noteq> es ! i"
    proof (intro allI impI)
      fix j assume j: "j < length es" "j \<noteq> i"
      then have "(es @ [x]) ! j \<noteq> (es @ [x]) ! i"
        using snoc.prems(1) by (metis length_append_singleton less_Suc_eq)
      then show "es ! j \<noteq> es ! i" using j True by (simp add: nth_append)
    qed
    then have "filter (\<lambda>p. fst p = es ! i) (zip es [0 ..< length es]) = [(es ! i, i)]"
      using snoc.IH True by blast
    then show ?thesis using True xi by (simp add: nth_append)
  next
    case False
    then have i: "i = length es" using snoc.prems by simp
    have "\<forall>j < length es. es ! j \<noteq> x"
    proof (intro allI impI)
      fix j assume j: "j < length es"
      then have "(es @ [x]) ! j \<noteq> (es @ [x]) ! i"
        using snoc.prems(1) i by (metis length_append_singleton less_Suc_eq nat_neq_iff)
      then show "es ! j \<noteq> x" using j i by (simp add: nth_append)
    qed
    then have "filter (\<lambda>p. fst p = x) (zip es [0 ..< length es]) = []"
      by (auto simp: filter_empty_conv set_zip)
    then show ?thesis using i by simp
  qed
qed

lemma zip_append_upt:
  "zip (es @ ts) [0 ..< length (es @ ts)] =
   zip es [0 ..< length es] @ zip ts [length es ..< length es + length ts]"
proof -
  have "[0 ..< length es + length ts] = [0 ..< length es] @ [length es ..< length es + length ts]"
    using upt_add_eq_append[of 0 "length es" "length ts"] by simp
  then have "zip (es @ ts) [0 ..< length es + length ts] =
      zip (es @ ts) ([0 ..< length es] @ [length es ..< length es + length ts])"
    by (rule arg_cong)
  also have "\<dots> = zip es [0 ..< length es] @ zip ts [length es ..< length es + length ts]"
    by (rule zip_append) simp
  finally show ?thesis by simp
qed

lemma filter_zip_second_part:
  "filter (\<lambda>p. fst p = e) (zip ts [k ..< k + length ts]) \<noteq> [] \<longleftrightarrow> e \<in> set ts"
proof -
  have "map fst (zip ts [k ..< k + length ts]) = ts" by simp
  then have "fst ` set (zip ts [k ..< k + length ts]) = set ts"
    by (metis set_map)
  then show ?thesis by (force simp: filter_empty_conv)
qed

lemma sorted_pairs_next_equal:
  fixes es ts :: "double list"
  assumes d: "\<forall>j < length es. j \<noteq> i \<longrightarrow> es ! j \<noteq> es ! i" and i: "i < length es"
    and ps: "ps = sort_key (\<lambda>p. sort_rank (fst p)) (zip (es @ ts) [0 ..< length (es @ ts)])"
    and q: "q < length ps" and qi: "snd (ps ! q) = i"
  shows "(Suc q < length ps \<and> fst (ps ! Suc q) = fst (ps ! q)) \<longleftrightarrow> es ! i \<in> set ts"
proof -
  let ?e = "es ! i"
  let ?f = "\<lambda>p::double \<times> nat. sort_rank (fst p)"
  let ?P = "\<lambda>p::double \<times> nat. ?f p = sort_rank ?e"
  let ?A = "take q ps" and ?B = "drop (Suc q) ps"
  have P: "?P = (\<lambda>p. fst p = ?e)"
    by (simp add: sort_rank_eq_iff)
  have facts: "sorted (map ?f ps)"
    "\<forall>q < length ps. fst (ps ! q) = (es @ ts) ! snd (ps ! q) \<and> snd (ps ! q) < length (es @ ts)"
    unfolding ps using sort_stable_facts(4,5)[of "es @ ts"] by blast+
  have x: "ps ! q = (?e, i)"
    using facts(2) q qi i by (metis nth_append prod.collapse)
  have split: "ps = ?A @ (?e, i) # ?B"
    using q x by (metis id_take_nth_drop)
  have dist: "distinct ps"
    unfolding ps by (simp add: distinct_zipI2)
  have notA: "(?e, i) \<notin> set ?A"
    using dist split by (metis distinct_append distinct.simps(2) disjoint_iff list.set_intros(1))
  have "filter ?P ps = filter ?P (zip (es @ ts) [0 ..< length (es @ ts)])"
    unfolding ps by (rule sort_key_stable)
  also have "\<dots> = [(?e, i)] @ filter ?P (zip ts [length es ..< length es + length ts])"
    unfolding zip_append_upt P using filter_zip_first_part[OF d i] by simp
  finally have f1: "filter ?P ps = (?e, i) # filter ?P (zip ts [length es ..< length es + length ts])"
    by simp
  have f2: "filter ?P ps = filter ?P ?A @ (?e, i) # filter ?P ?B"
    by (subst split) simp
  have fA: "filter ?P ?A = []"
  proof (rule ccontr)
    assume "filter ?P ?A \<noteq> []"
    then obtain y ys where yy: "filter ?P ?A = y # ys" by (cases "filter ?P ?A") auto
    then have "y = (?e, i)" using f1 f2 by simp
    then have "(?e, i) \<in> set (filter ?P ?A)" using yy by simp
    then show False using notA by simp
  qed
  have fB: "filter ?P ?B = filter ?P (zip ts [length es ..< length es + length ts])"
    using f1 f2 fA by simp
  have s: "sorted (map ?f (?A @ (?e, i) # ?B))"
    using facts(1) split by simp
  have "(?B \<noteq> [] \<and> ?f (hd ?B) = ?f (?e, i)) \<longleftrightarrow> filter (\<lambda>p. ?f p = ?f (?e, i)) ?B \<noteq> []"
    by (rule sorted_next_equal_iff[OF s])
  then have "(?B \<noteq> [] \<and> fst (hd ?B) = ?e) \<longleftrightarrow> filter ?P ?B \<noteq> []"
    by (simp add: sort_rank_eq_iff)
  also have "\<dots> \<longleftrightarrow> ?e \<in> set ts"
    using fB filter_zip_second_part[of ?e ts "length es"] by (simp add: P)
  finally have "(?B \<noteq> [] \<and> fst (hd ?B) = ?e) \<longleftrightarrow> ?e \<in> set ts" .
  moreover have "?B \<noteq> [] \<longleftrightarrow> Suc q < length ps" by auto
  moreover have "Suc q < length ps \<Longrightarrow> hd ?B = ps ! Suc q"
    by (simp add: hd_drop_conv_nth)
  ultimately show ?thesis using x by auto
qed

subsection \<open>The mask of the sort-based path\<close>

lemma index_of_nth: "x \<in> set u \<Longrightarrow> index_of u x < length u \<and> u ! index_of u x = x"
  by (induction u) auto

lemma distinct_pairwise_unequal: "distinct u \<Longrightarrow> pairwise_unequal u"
  unfolding pairwise_unequal_def by (auto simp: nth_eq_iff_index_eq dest: d_eq_imp_eq)

lemma unique_first_contract: "unique_contract unique_first"
proof -
  have "index_of (rev (remdups (rev xs))) (xs ! i) < length (rev (remdups (rev xs))) \<and>
        rev (remdups (rev xs)) ! index_of (rev (remdups (rev xs))) (xs ! i) = xs ! i"
    if "i < length xs" for xs :: "double list" and i
    by (rule index_of_nth) (use that in simp)
  moreover have "pairwise_unequal (rev (remdups (rev xs)))" for xs :: "double list"
    by (rule distinct_pairwise_unequal) simp
  ultimately show ?thesis
    unfolding unique_contract_def unique_first_def by (simp add: Let_def)
qed

lemma isin_brute_force_data:
  "isin_brute_force elements test_elements invert out =
   out\<lparr>data := map (\<lambda>e. invert \<noteq> (\<exists>t \<in> set (data test_elements). d_eq e t))
                (data elements)\<rparr>"
  by (simp add: isin_brute_force_def isin_default_stub_def fill_inplace_def)

lemma isin_duplicate_mask_length:
  "length (isin_duplicate_mask junk invert se) = length se"
  by (cases "se = []") (auto simp: isin_duplicate_mask_def Let_def empty_like_def)

lemma isin_duplicate_mask_nth:
  assumes q: "q < length se"
  shows "isin_duplicate_mask junk invert se ! q =
         (invert \<noteq> (Suc q < length se \<and> d_eq (se ! Suc q) (se ! q)))"
proof -
  let ?n = "length se"
  let ?compared = "if invert then map2 d_ne (drop 1 se) (take (?n - 1) se)
      else map2 d_eq (drop 1 se) (take (?n - 1) se)"
  have lc: "length ?compared = ?n - 1" by simp
  have le: "length (?compared @ drop (?n - 1) (empty_like junk ?n)) = ?n"
    using q by (simp add: empty_like_def)
  have unf: "isin_duplicate_mask junk invert se =
      (?compared @ drop (?n - 1) (empty_like junk ?n))[?n - 1 := invert]"
    by (simp add: isin_duplicate_mask_def Let_def)
  show ?thesis
  proof (cases "Suc q < ?n")
    case True
    then have q1: "q < ?n - 1" by simp
    then have "?compared ! q = (invert \<noteq> d_eq (se ! Suc q) (se ! q))"
      by (auto simp: d_ne_def)
    then have "(?compared @ drop (?n - 1) (empty_like junk ?n)) ! q =
        (invert \<noteq> d_eq (se ! Suc q) (se ! q))"
      using q1 lc by (simp only: nth_append if_True)
    then show ?thesis
      unfolding unf using True q1 by (simp only: nth_list_update_neq) auto
  next
    case False
    then have "q = ?n - 1" using q by simp
    then show ?thesis unfolding unf using False le q by (simp only: nth_list_update_eq) simp
  qed
qed

lemma isin_mask_first_part:
  fixes es ts :: "double list" and invert :: bool
  assumes d: "pairwise_unequal es"
    and so: "sort_stable (es @ ts) = (se, so)"
  shows "\<exists>m. index_copy (empty_like junk2 (length se)) so
               (isin_duplicate_mask junk1 invert se) = Inr m \<and>
             length m = length se \<and> length se = length es + length ts \<and>
             (\<forall>i < length es. m ! i = (invert \<noteq> (\<exists>t \<in> set ts. d_eq (es ! i) t)))"
proof -
  define ps where
    "ps = sort_key (\<lambda>p. sort_rank (fst p)) (zip (es @ ts) [0 ..< length (es @ ts)])"
  let ?n = "length se"
  let ?dup = "isin_duplicate_mask junk1 invert se"
  have se: "se = map fst ps" and so': "so = map snd ps"
    using so unfolding sort_stable_def ps_def by (simp_all add: Let_def)
  have lps: "length ps = length es + length ts"
    unfolding ps_def by simp
  have nn: "?n = length es + length ts" using se lps by simp
  have dso: "distinct so" and sso: "set so = {0 ..< ?n}"
    using sort_stable_facts(2,3)[of "es @ ts"] nn unfolding so' ps_def by simp_all
  have ldup: "length ?dup = ?n" by (rule isin_duplicate_mask_length)
  have "\<exists>m. index_copy (empty_like junk2 ?n) so ?dup = Inr m \<and>
           length m = length (empty_like junk2 ?n) \<and>
           (\<forall>p < length so. m ! (so ! p) = ?dup ! p)"
    by (rule index_copy_nth) (use dso sso ldup so' lps nn in \<open>auto simp: empty_like_def\<close>)
  then obtain m where m: "index_copy (empty_like junk2 ?n) so ?dup = Inr m"
    "length m = ?n" "\<forall>p < length so. m ! (so ! p) = ?dup ! p"
    by (auto simp: empty_like_def)
  have "m ! i = (invert \<noteq> (\<exists>t \<in> set ts. d_eq (es ! i) t))" if i: "i < length es" for i
  proof -
    have "i \<in> set so" using sso i nn by simp
    then obtain q where q: "q < length so" "so ! q = i"
      by (auto simp: in_set_conv_nth)
    have qn: "q < ?n" using q so' lps nn by simp
    have qps: "q < length ps" "snd (ps ! q) = i"
      using q so' by simp_all
    have "fst (ps ! q) = (es @ ts) ! snd (ps ! q)"
      using sort_stable_facts(5)[of "es @ ts"] qps(1) unfolding ps_def by blast
    then have seq: "se ! q = es ! i"
      using qps i se by (simp add: nth_append)
    have "m ! i = ?dup ! q" using m(3) q by auto
    also have "\<dots> = (invert \<noteq> (Suc q < ?n \<and> d_eq (se ! Suc q) (se ! q)))"
      by (rule isin_duplicate_mask_nth[OF qn])
    also have "(Suc q < ?n \<and> d_eq (se ! Suc q) (se ! q)) \<longleftrightarrow> (\<exists>t \<in> set ts. d_eq (es ! i) t)"
    proof (cases "es ! i = NaN")
      case True
      then show ?thesis using seq by (simp add: d_eq_NaN_right)
    next
      case False
      have once: "\<forall>j < length es. j \<noteq> i \<longrightarrow> es ! j \<noteq> es ! i"
      proof (intro allI impI)
        fix j assume j: "j < length es" "j \<noteq> i"
        then have "\<not> d_eq (es ! i) (es ! j)"
          using d i unfolding pairwise_unequal_def by blast
        then show "es ! j \<noteq> es ! i" using False by (auto simp: d_eq_iff_left)
      qed
      have key: "(Suc q < length ps \<and> fst (ps ! Suc q) = fst (ps ! q)) \<longleftrightarrow> es ! i \<in> set ts"
        by (rule sorted_pairs_next_equal[OF once i ps_def qps])
      have "(Suc q < ?n \<and> d_eq (se ! Suc q) (se ! q)) \<longleftrightarrow>
            (Suc q < length ps \<and> fst (ps ! Suc q) = fst (ps ! q))"
        using qn lps nn se seq False by (auto simp: d_eq_iff_right)
      moreover have "(\<exists>t \<in> set ts. d_eq (es ! i) t) \<longleftrightarrow> es ! i \<in> set ts"
        using False by (auto simp: d_eq_iff_left)
      ultimately show ?thesis using key by simp
    qed
    finally show ?thesis .
  qed
  then show ?thesis using m nn by blast
qed

lemma isin_sorting_assume_unique:
  assumes ne: "data elements \<noteq> [] \<or> data test_elements \<noteq> []"
    and wf: "numel elements = length (data elements)"
    and d: "pairwise_unequal (data elements)"
  shows "isin_sorting uq junk1 junk2 elements test_elements True invert out =
         Inr (isin_brute_force elements test_elements invert out)"
proof -
  let ?es = "data elements" and ?ts = "data test_elements"
  obtain se so where so: "sort_stable (?es @ ?ts) = (se, so)" by (cases "sort_stable (?es @ ?ts)")
  from isin_mask_first_part[OF d so, of junk2 junk1 invert]
  obtain m where m:
    "index_copy (empty_like junk2 (length se)) so (isin_duplicate_mask junk1 invert se) = Inr m"
    "length m = length se" "length se = length ?es + length ?ts"
    "\<forall>i < length ?es. m ! i = (invert \<noteq> (\<exists>t \<in> set ?ts. d_eq (?es ! i) t))"
    by blast
  have n0: "se \<noteq> []" using m(3) ne by auto
  have "take (length ?es) m = map (\<lambda>e. invert \<noteq> (\<exists>t \<in> set ?ts. d_eq e t)) ?es"
    using m(2,3,4) by (intro nth_equalityI) auto
  then show ?thesis
    using so m(1) n0 wf
    by (simp add: isin_sorting_def isin_brute_force_data Let_def)
qed

lemma isin_sorting_not_assume_unique:
  assumes uq: "unique_contract uq"
    and ne: "data elements \<noteq> [] \<or> data test_elements \<noteq> []"
  shows "isin_sorting uq junk1 junk2 elements test_elements False invert out =
         Inr (isin_brute_force elements test_elements invert out)"
proof -
  let ?es = "data elements" and ?ts = "data test_elements"
  obtain u iv where u: "uq ?es = (u, iv)" by (cases "uq ?es")
  obtain tu tv where tu: "uq ?ts = (tu, tv)" by (cases "uq ?ts")
  have cu: "pairwise_unequal u \<and> set u = set ?es \<and> length iv = length ?es \<and>
    (\<forall>i < length ?es. iv ! i < length u \<and> u ! (iv ! i) = ?es ! i)"
    using uq[unfolded unique_contract_def, rule_format, of ?es] u by simp
  have ct: "set tu = set ?ts"
    using uq[unfolded unique_contract_def, rule_format, of ?ts] tu by simp
  obtain se so where so: "sort_stable (u @ tu) = (se, so)" by (cases "sort_stable (u @ tu)")
  from cu have du: "pairwise_unequal u" by simp
  from isin_mask_first_part[OF du so, of junk2 junk1 invert]
  obtain m where m:
    "index_copy (empty_like junk2 (length se)) so (isin_duplicate_mask junk1 invert se) = Inr m"
    "length m = length se" "length se = length u + length tu"
    "\<forall>i < length u. m ! i = (invert \<noteq> (\<exists>t \<in> set tu. d_eq (u ! i) t))"
    by blast
  have "u \<noteq> [] \<or> tu \<noteq> []" using cu ct ne by auto
  then have n0: "se \<noteq> []" using m(3) by auto
  have ivlt: "iv ! k < length u" if "k < length iv" for k
    using cu that by simp
  have inr: "\<forall>i \<in> set iv. i < length m"
    using ivlt m(2,3) by (fastforce simp: in_set_conv_nth)
  then have sel: "index_select m iv = Inr (map (\<lambda>i. m ! i) iv)"
    by (auto simp: index_select_def)
  have "map (\<lambda>i. m ! i) iv = map (\<lambda>e. invert \<noteq> (\<exists>t \<in> set ?ts. d_eq e t)) ?es"
    using cu m(4) ct by (intro nth_equalityI) auto
  then show ?thesis
    using so m(1) n0 u tu sel
    by (simp add: isin_sorting_def isin_brute_force_data Let_def)
qed

text \<open>
  Claim C1, as amended. The sort-based path \<open>isin_sorting\<close> and the brute-force path give
  the same mask, for both values of \<open>invert\<close> and whichever path the size heuristic
  would take, whenever the two operands are not both empty and either \<open>assume_unique\<close>
  is false or no two elements of \<open>elements\<close> are equal by \<open>==\<close>. The elements may be NaN
  (a NaN equals nothing, so \<open>elements\<close> may hold several), and \<open>test_elements\<close> may repeat
  values. The contents of the two uninitialised tensors do not matter, and neither
  does the order in which \<open>_unique\<close> returns the values.
\<close>

theorem isin_sorting_agrees_with_brute_force:
  assumes "unique_contract uq"
    and "data elements \<noteq> [] \<or> data test_elements \<noteq> []"
    and "numel elements = length (data elements)"
    and "assume_unique \<longrightarrow> pairwise_unequal (data elements)"
  shows "isin_sorting uq junk1 junk2 elements test_elements assume_unique invert out =
         Inr (isin_brute_force elements test_elements invert out)"
proof (cases assume_unique)
  case True
  then have "pairwise_unequal (data elements)" using assms(4) by simp
  then have "isin_sorting uq junk1 junk2 elements test_elements True invert out =
      Inr (isin_brute_force elements test_elements invert out)"
    by (rule isin_sorting_assume_unique[OF assms(2,3)])
  then show ?thesis using True by simp
next
  case False
  have "isin_sorting uq junk1 junk2 elements test_elements False invert out =
      Inr (isin_brute_force elements test_elements invert out)"
    by (rule isin_sorting_not_assume_unique[OF assms(1,2)])
  then show ?thesis using False by simp
qed

text \<open>
  The theorem at \<open>elements = [1, NaN, 3, NaN]\<close>, \<open>test_elements = [3, NaN, 3]\<close> with
  \<open>assume_unique = true\<close>, where the mask is \<open>[false, false, true, false]\<close>, and at
  \<open>elements = [1, 2, 2, 3]\<close>, \<open>test_elements = [2]\<close> with \<open>assume_unique = false\<close>, where
  it is \<open>[false, true, true, false]\<close>.
\<close>

theorem isin_sorting_agrees_with_brute_force_witness:
  "unique_contract unique_first \<and>
   pairwise_unequal (data (cpu_tensor kDouble [4] [Fin 1, NaN, Fin 3, NaN])) \<and>
   isin_sorting unique_first (\<lambda>i. False) (\<lambda>i. False)
     (cpu_tensor kDouble [4] [Fin 1, NaN, Fin 3, NaN]) (cpu_tensor kDouble [3] [Fin 3, NaN, Fin 3])
     True False (cpu_tensor kBool [4] [False, False, False, False])
   = Inr (cpu_tensor kBool [4] [False, False, True, False]) \<and>
   isin_sorting unique_first (\<lambda>i. False) (\<lambda>i. False)
     (cpu_tensor kLong [4] [Fin 1, Fin 2, Fin 2, Fin 3]) (cpu_tensor kLong [1] [Fin 2])
     False False (cpu_tensor kBool [4] [False, False, False, False])
   = Inr (cpu_tensor kBool [4] [False, True, True, False])"
proof -
  have p: "pairwise_unequal (data (cpu_tensor kDouble [4] [Fin 1, NaN, Fin 3, NaN]))"
    by (auto simp: pairwise_unequal_def cpu_tensor_def less_Suc_eq numeral_eq_Suc)
  show ?thesis
    using
      isin_sorting_agrees_with_brute_force[OF unique_first_contract,
        of "cpu_tensor kDouble [4] [Fin 1, NaN, Fin 3, NaN]"
           "cpu_tensor kDouble [3] [Fin 3, NaN, Fin 3]" True "\<lambda>i. False" "\<lambda>i. False" False
           "cpu_tensor kBool [4] [False, False, False, False]"]
      isin_sorting_agrees_with_brute_force[OF unique_first_contract,
        of "cpu_tensor kLong [4] [Fin 1, Fin 2, Fin 2, Fin 3]"
           "cpu_tensor kLong [1] [Fin 2]" False "\<lambda>i. False" "\<lambda>i. False" False
           "cpu_tensor kBool [4] [False, False, False, False]"]
      p
    by (simp add: unique_first_contract cpu_tensor_def numel_def isin_brute_force_data)
qed

text \<open>
  Claim C1 as stated fails when \<open>assume_unique\<close> is true and \<open>elements\<close> repeats a value:
  for \<open>elements = [1, 1]\<close> and the eleven test elements \<open>2, ..., 12\<close>, the sorted values
  begin with \<open>1, 1\<close>, the first is marked as a duplicate of the second, and the
  sort-based path answers \<open>[true, false]\<close> where the brute-force path answers
  \<open>[false, false]\<close>. It also fails when both operands are empty: the sorted tensor is
  empty, \<open>index_put_\<close> at \<open>-1\<close> raises, and the brute-force path returns the empty mask.
\<close>

theorem isin_assume_unique_counterexample:
  "isin_sorting unique_first (\<lambda>i. False) (\<lambda>i. False)
     (cpu_tensor kLong [2] [Fin 1, Fin 1])
     (cpu_tensor kLong [11]
        [Fin 2, Fin 3, Fin 4, Fin 5, Fin 6, Fin 7, Fin 8, Fin 9, Fin 10, Fin 11, Fin 12])
     True False (cpu_tensor kBool [2] [False, False])
   = Inr (cpu_tensor kBool [2] [True, False]) \<and>
   isin_brute_force (cpu_tensor kLong [2] [Fin 1, Fin 1])
     (cpu_tensor kLong [11]
        [Fin 2, Fin 3, Fin 4, Fin 5, Fin 6, Fin 7, Fin 8, Fin 9, Fin 10, Fin 11, Fin 12])
     False (cpu_tensor kBool [2] [False, False])
   = cpu_tensor kBool [2] [False, False] \<and>
   isin_sorting unique_first (\<lambda>i. False) (\<lambda>i. False)
     (cpu_tensor kLong [0] []) (cpu_tensor kLong [0] []) True False (cpu_tensor kBool [0] [])
   = Inl IndexOutOfRange \<and>
   isin_brute_force (cpu_tensor kLong [0] []) (cpu_tensor kLong [0] []) False
     (cpu_tensor kBool [0] [])
   = cpu_tensor kBool [0] []"
  by code_simp

subsection \<open>The size heuristic\<close>

lemma less_truncate_iff: "int m < truncate x \<longleftrightarrow> real m + 1 \<le> x"
proof (cases "0 \<le> x")
  case True
  have "int m < \<lfloor>x\<rfloor> \<longleftrightarrow> int m + 1 \<le> \<lfloor>x\<rfloor>" by auto
  also have "\<dots> \<longleftrightarrow> real_of_int (int m + 1) \<le> x" by (rule le_floor_iff)
  finally show ?thesis using True by (simp add: truncate_def)
next
  case False
  then have "\<lceil>x\<rceil> \<le> 0" by (simp add: ceiling_le_iff)
  then have "\<not> int m < \<lceil>x\<rceil>" by linarith
  moreover have "\<not> real m + 1 \<le> x" using False by simp
  ultimately show ?thesis using False by (simp add: truncate_def)
qed

text \<open>
  The condition without the conversion: \<open>m\<close> is below the truncated value exactly when
  \<open>m + 1\<close> is at most the value.
\<close>

lemma isin_uses_brute_force_iff:
  "isin_uses_brute_force F n m \<longleftrightarrow> real m + 1 \<le> isin_heuristic_value F n"
  unfolding isin_uses_brute_force_def by (rule less_truncate_iff)

text \<open>
  Claim C3, as amended. For a non-empty \<open>elements\<close> with \<open>n\<close> elements and \<open>m\<close> test
  elements, \<open>isin\<close> takes the brute-force path exactly when \<open>m\<close> is less than the integer
  part of \<open>t\<close>, that is when \<open>m + 1 \<le> t\<close>, and the sort-based path otherwise, where \<open>t\<close>
  is the \<open>double\<close> the source computes for \<open>10 * n ^ 0.145\<close>: the value is converted to an
  integer before the comparison. This holds whatever the floating-point operations
  round to.
\<close>

theorem isin_path_selection:
  assumes "numel elements \<noteq> 0"
  shows "isin_Tensor_Tensor_out F uq junk1 junk2 elements test_elements assume_unique invert out =
     (if real (numel test_elements) + 1 \<le> isin_heuristic_value F (numel elements)
      then Inr (isin_brute_force elements test_elements invert out)
      else isin_sorting uq junk1 junk2 elements test_elements assume_unique invert out)"
  using assms by (simp add: isin_Tensor_Tensor_out_def isin_uses_brute_force_iff)

text \<open>Bounds on \<open>10 * 2 ^ 0.145\<close>, through the 200th power.\<close>

lemma powr_145_pow_200:
  fixes x :: real
  assumes "0 < x"
  shows "(x powr 0.145) ^ 200 = x ^ 29"
proof -
  have p: "0 < x powr 0.145" using assms by simp
  have "(x powr 0.145) ^ 200 = (x powr 0.145) powr (real 200)"
    using powr_realpow[OF p, of 200] by simp
  also have "\<dots> = x powr (0.145 * real 200)" by (simp only: powr_powr)
  also have "0.145 * real 200 = real 29" by simp
  also have "x powr (real 29) = x ^ 29" using powr_realpow[OF assms, of 29] by simp
  finally show ?thesis .
qed

lemma ten_times_two_powr_bounds:
  shows "(11::real) < 10 * 2 powr 0.145 \<and> 10 * 2 powr 0.145 < (119 / 10 :: real)"
proof (intro conjI)
  have e: "(10 * (2::real) powr 0.145) ^ 200 = 10 ^ 200 * 2 ^ 29"
    using powr_145_pow_200[of 2] by (simp only: power_mult_distrib)
  have "(11::real) ^ 200 < 10 ^ 200 * 2 ^ 29" by simp
  then have "(11::real) ^ 200 < (10 * (2::real) powr 0.145) ^ 200"
    unfolding e .
  then show "(11::real) < 10 * 2 powr 0.145"
    by (rule power_less_imp_less_base) simp
  have "(10::real) ^ 200 * 2 ^ 29 < (119 / 10) ^ 200" by (simp add: power_divide)
  then have "(10 * (2::real) powr 0.145) ^ 200 < (119 / 10) ^ 200"
    unfolding e .
  then show "10 * 2 powr 0.145 < (119 / 10 :: real)"
    by (rule power_less_imp_less_base) simp
qed

lemma isin_heuristic_value_unrounded:
  "isin_heuristic_value unrounded n = 10 * (real n) powr 0.145"
  by (simp add: isin_heuristic_value_def unrounded_def)

text \<open>
  The theorem at \<open>n = 2\<close>, \<open>m = 10\<close>, with the operations computed without rounding: the
  brute-force path runs, since \<open>11 \<le> 10 * 2 ^ 0.145\<close>.
\<close>

theorem isin_path_selection_witness:
  "numel (cpu_tensor kLong [2] [Fin 5, Fin 7]) \<noteq> 0 \<and>
   isin_Tensor_Tensor_out unrounded unique_first (\<lambda>i. False) (\<lambda>i. False)
     (cpu_tensor kLong [2] [Fin 5, Fin 7])
     (cpu_tensor kLong [10] [Fin 0, Fin 1, Fin 2, Fin 3, Fin 4, Fin 5, Fin 6, Fin 7, Fin 8, Fin 9])
     True False (cpu_tensor kBool [2] [False, False])
   = Inr (cpu_tensor kBool [2] [True, True])"
proof -
  have n: "numel (cpu_tensor kLong [2] [Fin 5, Fin 7]) = 2"
    and m: "numel (cpu_tensor kLong [10]
       [Fin 0, Fin 1, Fin 2, Fin 3, Fin 4, Fin 5, Fin 6, Fin 7, Fin 8, Fin 9]) = 10"
    by (simp_all add: numel_def cpu_tensor_def)
  have c: "real (10::nat) + 1 \<le> isin_heuristic_value unrounded 2"
    using ten_times_two_powr_bounds by (simp add: isin_heuristic_value_unrounded)
  have "numel (cpu_tensor kLong [2] [Fin 5, Fin 7]) \<noteq> 0" using n by simp
  from isin_path_selection[OF this, of unrounded unique_first "\<lambda>i. False" "\<lambda>i. False"
      "cpu_tensor kLong [10] [Fin 0, Fin 1, Fin 2, Fin 3, Fin 4, Fin 5, Fin 6, Fin 7, Fin 8, Fin 9]"
      True False "cpu_tensor kBool [2] [False, False]"]
  show ?thesis
    unfolding n m using c
    by (simp add: isin_brute_force_def isin_default_stub_def fill_inplace_def cpu_tensor_def
        numel_def)
qed

text \<open>
  Claim C3 as stated fails at \<open>n = 2\<close>, \<open>m = 11\<close>: \<open>11 < 10 * 2 ^ 0.145\<close> (about 11.06), and
  yet the sort-based path is taken, by every floating-point arithmetic whose result is
  within a hundredth of the exact value: the integer part is 11, and \<open>11 < 11\<close> is false.
\<close>

theorem isin_threshold_truncation_counterexample:
  "real (11::nat) < 10 * (real (2::nat)) powr 0.145 \<and>
   \<not> (\<exists>F. \<bar>isin_heuristic_value F 2 - 10 * (real (2::nat)) powr 0.145\<bar> \<le> 1 / 100 \<and>
          isin_uses_brute_force F 2 11) \<and>
   \<not> isin_uses_brute_force unrounded 2 11"
proof -
  have "\<not> isin_uses_brute_force F 2 11"
    if "\<bar>isin_heuristic_value F 2 - 10 * (real (2::nat)) powr 0.145\<bar> \<le> 1 / 100" for F
  proof -
    define t where "t = 10 * (real (2::nat)) powr 0.145"
    have "t < 119 / 10"
      using ten_times_two_powr_bounds unfolding t_def by simp
    moreover have "\<bar>isin_heuristic_value F 2 - t\<bar> \<le> 1 / 100"
      using that unfolding t_def .
    ultimately have "isin_heuristic_value F 2 < 12"
      by linarith
    then show ?thesis by (simp add: isin_uses_brute_force_iff)
  qed
  moreover have "\<not> isin_uses_brute_force unrounded 2 11"
    using ten_times_two_powr_bounds
    by (simp add: isin_uses_brute_force_iff isin_heuristic_value_unrounded)
  ultimately show ?thesis using ten_times_two_powr_bounds by auto
qed

section \<open>Theorems: validation of isclose and mode\<close>

text \<open>
  Claim C7, as amended. \<open>isclose\<close> fails with \<open>DtypeMismatch\<close> when the dtypes differ;
  with \<open>UnsupportedType\<close> when the dtypes agree and an operand is quantized; with
  \<open>InvalidArgument\<close> when the dtypes agree, no operand is quantized and \<open>rtol >= 0\<close> or
  \<open>atol >= 0\<close> does not hold (a negative or a NaN tolerance). The checks run in this
  order and the first that fails decides the error. Nothing is computed before: the
  result does not depend on the shapes, the elements or the closeness kernel.
\<close>

theorem isclose_checks_in_order:
  "(scalar_type self \<noteq> scalar_type other \<longrightarrow>
      isclose fc self other rtol atol equal_nan = Inl DtypeMismatch) \<and>
   (scalar_type self = scalar_type other \<and> (is_quantized self \<or> is_quantized other) \<longrightarrow>
      isclose fc self other rtol atol equal_nan = Inl UnsupportedType) \<and>
   (scalar_type self = scalar_type other \<and> \<not> is_quantized self \<and> \<not> is_quantized other \<and>
    (\<not> d_ge rtol (Fin 0) \<or> \<not> d_ge atol (Fin 0)) \<longrightarrow>
      isclose fc self other rtol atol equal_nan = Inl InvalidArgument)"
  by (simp add: isclose_def)

text \<open>The theorem at one input for each of the three errors.\<close>

theorem isclose_checks_in_order_witness:
  "isclose (\<lambda>rtol atol a b. Inl Broadcast)
     (cpu_tensor kLong [1] [Fin 1]) (cpu_tensor kFloat [1] [Fin 1]) (Fin 0) (Fin 0) False
     = Inl DtypeMismatch \<and>
   isclose (\<lambda>rtol atol a b. Inl Broadcast)
     ((cpu_tensor kQInt8 [1] [Fin 1])\<lparr>is_quantized := True\<rparr>) (cpu_tensor kQInt8 [1] [Fin 1])
     (Fin 0) (Fin 0) False
     = Inl UnsupportedType \<and>
   isclose (\<lambda>rtol atol a b. Inl Broadcast)
     (cpu_tensor kFloat [1] [Fin 1]) (cpu_tensor kFloat [1] [Fin 1]) (Fin (-1)) (Fin 0) False
     = Inl InvalidArgument"
  using
    isclose_checks_in_order[of "cpu_tensor kLong [1] [Fin 1]" "cpu_tensor kFloat [1] [Fin 1]"
      "\<lambda>rtol atol a b. Inl Broadcast" "Fin 0" "Fin 0" False]
    isclose_checks_in_order[of "(cpu_tensor kQInt8 [1] [Fin 1])\<lparr>is_quantized := True\<rparr>"
      "cpu_tensor kQInt8 [1] [Fin 1]" "\<lambda>rtol atol a b. Inl Broadcast" "Fin 0" "Fin 0" False]
    isclose_checks_in_order[of "cpu_tensor kFloat [1] [Fin 1]" "cpu_tensor kFloat [1] [Fin 1]"
      "\<lambda>rtol atol a b. Inl Broadcast" "Fin (-1)" "Fin 0" False]
  by (simp add: cpu_tensor_def)

text \<open>
  Claim C7 as stated fails for a quantized operand whose dtype differs from the
  other's: the dtype check comes first, and the error is \<open>DtypeMismatch\<close>.
\<close>

theorem isclose_quantized_counterexample:
  "is_quantized ((cpu_tensor kQUInt8 [1] [Fin 1])\<lparr>is_quantized := True\<rparr>) \<and>
   isclose (\<lambda>rtol atol a b. Inl Broadcast)
     ((cpu_tensor kQUInt8 [1] [Fin 1])\<lparr>is_quantized := True\<rparr>) (cpu_tensor kFloat [1] [Fin 1])
     (Fin 0) (Fin 0) False \<noteq> Inl UnsupportedType"
  by (simp add: isclose_def cpu_tensor_def)

text \<open>
  Claim C8, as amended. For an input on a CPU or CUDA device with strided layout,
  \<open>mode_out\<close> fails with \<open>DeviceMismatch\<close> when the device of the values or of the indices
  buffer differs from the input's; with \<open>DtypeMismatch\<close> when the devices agree and the
  values buffer's dtype differs from the input's or the indices buffer's dtype is not
  \<open>kLong\<close>. The checks run in this order, before the dimension is wrapped and before
  any helper or kernel runs: the result does not depend on them.
\<close>

theorem mode_out_checks_in_order:
  "((fst (device self) = CPU \<or> fst (device self) = CUDA) \<and> layout self = Strided \<and>
    (device self \<noteq> device values \<or> device self \<noteq> device indices) \<longrightarrow>
      mode_out R self d keepdim values indices = Inl DeviceMismatch) \<and>
   ((fst (device self) = CPU \<or> fst (device self) = CUDA) \<and> layout self = Strided \<and>
    device self = device values \<and> device self = device indices \<and>
    (scalar_type self \<noteq> scalar_type values \<or> scalar_type indices \<noteq> kLong) \<longrightarrow>
      mode_out R self d keepdim values indices = Inl DtypeMismatch)"
  by (auto simp: mode_out_def)

text \<open>The theorem at one input for each of the two errors.\<close>

theorem mode_out_checks_in_order_witness:
  "mode_out plain_reduce_env (cpu_tensor kFloat [2] [Fin 1, Fin 2]) 0 False
     ((cpu_tensor kFloat [] [Fin 0])\<lparr>device := (CUDA, 0)\<rparr>) (cpu_tensor kLong [] [0])
     = Inl DeviceMismatch \<and>
   mode_out plain_reduce_env (cpu_tensor kFloat [2] [Fin 1, Fin 2]) 0 False
     (cpu_tensor kFloat [] [Fin 0]) (cpu_tensor kInt [] [0])
     = Inl DtypeMismatch"
  using
    mode_out_checks_in_order[of "cpu_tensor kFloat [2] [Fin 1, Fin 2]"
      "(cpu_tensor kFloat [] [Fin 0])\<lparr>device := (CUDA, 0)\<rparr>" "cpu_tensor kLong [] [0]"
      plain_reduce_env 0 False]
    mode_out_checks_in_order[of "cpu_tensor kFloat [2] [Fin 1, Fin 2]"
      "cpu_tensor kFloat [] [Fin 0]" "cpu_tensor kInt [] [0]" plain_reduce_env 0 False]
  by (simp add: cpu_tensor_def)

text \<open>
  Claim C8 as stated fails for a values buffer with another dtype on another device:
  the device check comes first, and the error is \<open>DeviceMismatch\<close>.
\<close>

theorem mode_out_dtype_counterexample:
  "scalar_type ((cpu_tensor kDouble [] [Fin 0])\<lparr>device := (CUDA, 0)\<rparr>) \<noteq>
     scalar_type (cpu_tensor kFloat [2] [Fin 1, Fin 2] :: double Tensor) \<and>
   mode_out plain_reduce_env (cpu_tensor kFloat [2] [Fin 1, Fin 2]) 0 False
     ((cpu_tensor kDouble [] [Fin 0])\<lparr>device := (CUDA, 0)\<rparr>) (cpu_tensor kLong [] [0])
     \<noteq> Inl DtypeMismatch"
  by (simp add: mode_out_def cpu_tensor_def)

section \<open>Theorems: isclose with zero tolerances\<close>

text \<open>A tensor expanded to its own shape is the tensor.\<close>

lemma infer_size_rev_same: "infer_size_rev xs xs = Some xs"
  by (induction xs) auto

lemma infer_size_same: "infer_size s s = Some s"
  by (simp add: infer_size_def infer_size_rev_same)

lemma chunks_concat:
  "length xs = k * p \<Longrightarrow> concat (chunks k p xs) = xs \<and> (\<forall>c \<in> set (chunks k p xs). length c = p)"
proof (induction k arbitrary: xs)
  case 0
  then show ?case by simp
next
  case (Suc k)
  have "length (drop p xs) = k * p" using Suc.prems by simp
  from Suc.IH[OF this] show ?case using Suc.prems by auto
qed

lemma expand_data_same: "length xs = prod_list s \<Longrightarrow> expand_data s s xs = xs"
proof (induction s arbitrary: xs)
  case Nil
  then show ?case by simp
next
  case (Cons a s)
  have len: "length xs = a * prod_list s" using Cons.prems by simp
  have c: "concat (chunks a (prod_list s) xs) = xs"
    and l: "\<forall>c \<in> set (chunks a (prod_list s) xs). length c = prod_list s"
    using chunks_concat[OF len] by blast+
  have "map (expand_data s s) (chunks a (prod_list s) xs) = chunks a (prod_list s) xs"
    using l Cons.IH by (simp add: map_idI)
  then show ?case using c by simp
qed

lemma expand_same: "length (data t) = numel t \<Longrightarrow> expand t (sizes t) = data t"
  by (simp add: expand_def numel_def expand_data_same)

lemma map2_same: "map2 f xs xs = map (\<lambda>x. f x x) xs"
  by (induction xs) auto

lemma d_eq_same: "d_eq x x \<longleftrightarrow> x \<noteq> NaN"
  by (cases x) auto

lemma d_ne_same: "d_ne x x \<longleftrightarrow> x = NaN"
  by (simp add: d_ne_def d_eq_same)

lemma comparison_op_same_shape:
  assumes "sizes a = sizes b" "length (data a) = numel a" "length (data b) = numel b"
  shows "comparison_op f a b = Inr (mask_of a (map2 f (data a) (data b)))"
  using assms expand_same[of a] expand_same[of b]
  by (simp add: comparison_op_def infer_size_same mask_of_def)

subsection \<open>Operands of different shapes\<close>

lemma list_all2_replicate_one:
  "list_all2 (\<lambda>a b. a = b \<or> a = (1::nat)) (replicate (length ys) 1) ys"
  by (simp add: list_all2_conv_all_nth)

lemma list_all2_same_or_one: "list_all2 (\<lambda>a b. a = b \<or> a = (1::nat)) ys ys"
  by (simp add: list_all2_conv_all_nth)

lemma infer_size_rev_facts:
  "infer_size_rev xs ys = Some zs \<Longrightarrow>
     list_all2 (\<lambda>a b. a = b \<or> a = (1::nat)) (xs @ replicate (length zs - length xs) 1) zs \<and>
     list_all2 (\<lambda>a b. a = b \<or> a = (1::nat)) (ys @ replicate (length zs - length ys) 1) zs"
proof (induction xs ys arbitrary: zs rule: infer_size_rev.induct)
  case (1 ys)
  then show ?case
    using list_all2_replicate_one[of ys] list_all2_same_or_one[of ys] by simp
next
  case (2 v va)
  then show ?case
    using list_all2_replicate_one[of "v # va"] list_all2_same_or_one[of "v # va"] by simp
next
  case (3 x xs y ys)
  from "3.prems" obtain zs' where c: "x = y \<or> x = 1 \<or> y = 1"
    and r: "infer_size_rev xs ys = Some zs'" and z: "zs = (if x = 1 then y else x) # zs'"
    by (auto split: if_splits)
  from "3.IH"[OF c r] show ?case using c z by auto
qed

lemma infer_size_facts:
  assumes "infer_size a b = Some shape"
  shows "list_all2 (\<lambda>a b. a = b \<or> a = (1::nat)) (replicate (length shape - length a) 1 @ a) shape \<and>
         list_all2 (\<lambda>a b. a = b \<or> a = (1::nat)) (replicate (length shape - length b) 1 @ b) shape"
proof -
  from assms obtain zs where r: "infer_size_rev (rev a) (rev b) = Some zs" and s: "shape = rev zs"
    by (auto simp: infer_size_def)
  from infer_size_rev_facts[OF r]
  have "list_all2 (\<lambda>a b. a = b \<or> a = (1::nat))
          (rev (rev a @ replicate (length zs - length (rev a)) 1)) (rev zs) \<and>
        list_all2 (\<lambda>a b. a = b \<or> a = (1::nat))
          (rev (rev b @ replicate (length zs - length (rev b)) 1)) (rev zs)"
    unfolding list_all2_rev by simp
  then show ?thesis using s by simp
qed

lemma chunks_length: "length (chunks k p xs) = k"
  by (induction k arbitrary: xs) auto

lemma chunks_map: "chunks k p (map f xs) = map (map f) (chunks k p xs)"
  by (induction k arbitrary: xs) (auto simp: take_map drop_map)

lemma length_concat_replicate: "length (concat (replicate n xs)) = n * length xs"
  by (induction n) auto

lemma length_concat_uniform:
  "(\<forall>x \<in> set xss. length x = p) \<Longrightarrow> length (concat xss) = length xss * p"
  by (induction xss) auto

lemma expand_data_map: "expand_data s t (map f xs) = map f (expand_data s t xs)"
proof (induction s arbitrary: t xs)
  case Nil
  then show ?case by simp
next
  case (Cons a s)
  show ?case
  proof (cases t)
    case Nil
    then show ?thesis by simp
  next
    case (Cons b t')
    show ?thesis
      unfolding Cons
      by (simp add: chunks_map Cons.IH map_concat o_def Let_def)
  qed
qed

lemma expand_data_length:
  "list_all2 (\<lambda>a b. a = b \<or> a = (1::nat)) s t \<Longrightarrow> length xs = prod_list s \<Longrightarrow>
     length (expand_data s t xs) = prod_list t"
proof (induction s t arbitrary: xs rule: list_all2_induct)
  case Nil
  then show ?case by simp
next
  case (Cons a s b t)
  have len: "length xs = a * prod_list s" using Cons.prems by simp
  have l: "\<forall>c \<in> set (chunks a (prod_list s) xs). length c = prod_list s"
    using chunks_concat[OF len] by blast
  have "\<forall>c \<in> set (map (expand_data s t) (chunks a (prod_list s) xs)). length c = prod_list t"
    using l Cons.IH by auto
  then have p: "length (concat (map (expand_data s t) (chunks a (prod_list s) xs))) =
                a * prod_list t"
    using length_concat_uniform[of "map (expand_data s t) (chunks a (prod_list s) xs)" "prod_list t"]
    by (simp add: chunks_length)
  show ?case
  proof (cases "a = b")
    case True
    then show ?thesis using p by simp
  next
    case False
    then have a: "a = 1" using Cons.hyps by simp
    have "length (concat (replicate b (concat (map (expand_data s t) (chunks a (prod_list s) xs)))))
          = b * prod_list t"
      using p a by (simp add: length_concat_replicate)
    then show ?thesis using False by simp
  qed
qed

lemma expand_length:
  assumes "infer_size (sizes a) (sizes b) = Some shape"
    and "length (data a) = numel a" and "length (data b) = numel b"
  shows "length (expand a shape) = prod_list shape \<and> length (expand b shape) = prod_list shape"
  using infer_size_facts[OF assms(1)] assms(2,3)
  by (simp add: expand_def numel_def expand_data_length)

lemma expand_map:
  "expand (t\<lparr>data := map f (data t)\<rparr>) shape = map f (expand t shape)"
  by (simp add: expand_def expand_data_map)

lemma isnan_data:
  assumes "length (data t) = numel t"
  shows "isnan t = Inr (mask_of t (map (\<lambda>x. d_ne x x) (data t)))"
  unfolding isnan_def ne_Tensor_def
  using comparison_op_same_shape[OF refl assms assms, of d_ne] by (simp add: map2_same)

lemma expand_mask_of: "expand (mask_of t (map f (data t))) shape = map f (expand t shape)"
  by (simp add: expand_def expand_data_map mask_of_def)

lemma map2_closeness:
  "map2 (\<or>) (map2 d_eq xs ys) (map2 (\<and>) (map (\<lambda>x. d_ne x x) xs) (map (\<lambda>y. d_ne y y) ys)) =
   map2 (\<lambda>x y. d_eq x y \<or> d_ne x x \<and> d_ne y y) xs ys"
  by (induction xs ys rule: list_induct2') auto

text \<open>
  Where claim C5 holds. For operands of one dtype, not quantized, whose shapes broadcast
  to \<open>shape\<close>, \<open>isclose\<close> with \<open>rtol = 0\<close> and \<open>atol = 0\<close> returns the equality mask of the
  expanded operands, or-ed with the NaN-match mask when \<open>equal_nan\<close> is true and the
  dtype is floating or complex, whatever the error-based closeness would compute (it
  is any \<open>fc\<close> here and is not consulted), provided that, when the NaN-match mask is
  computed, \<open>shape\<close> is the shape of \<open>self\<close>.
\<close>

lemma isclose_short_circuit_broadcast:
  assumes "scalar_type self = scalar_type other"
    and "\<not> is_quantized self" and "\<not> is_quantized other"
    and "infer_size (sizes self) (sizes other) = Some shape"
    and "length (data self) = numel self" and "length (data other) = numel other"
    and "equal_nan \<and> (is_floating_point self \<or> is_complex self) \<longrightarrow> shape = sizes self"
  shows "isclose fc self other (Fin 0) (Fin 0) equal_nan =
         Inr \<lparr>scalar_type = kBool, device = device self, layout = layout self,
              is_quantized = False, sizes = shape,
              data =
                (if equal_nan \<and> (is_floating_point self \<or> is_complex self)
                 then map2 (\<lambda>x y. d_eq x y \<or> (d_ne x x \<and> d_ne y y))
                        (expand self shape) (expand other shape)
                 else map2 d_eq (expand self shape) (expand other shape))\<rparr>"
proof -
  let ?close0 = "\<lparr>scalar_type = kBool, device = device self, layout = layout self,
                  is_quantized = False, sizes = shape,
                  data = map2 d_eq (expand self shape) (expand other shape)\<rparr>"
  have eq: "eq_Tensor self other = Inr ?close0"
    using assms(4) by (simp add: eq_Tensor_def comparison_op_def)
  show ?thesis
  proof (cases "equal_nan \<and> (is_floating_point self \<or> is_complex self)")
    case False
    then have c: "(equal_nan \<and> (is_floating_point self \<or> is_complex self)) = False"
      by simp
    show ?thesis
      using assms(1-3) by (simp add: isclose_def eq c)
  next
    case True
    then have sh: "shape = sizes self" using assms(7) by simp
    have es: "expand self shape = data self"
      unfolding sh by (rule expand_same[OF assms(5)])
    have lo: "length (expand other shape) = prod_list shape"
      using expand_length[OF assms(4-6)] by simp
    let ?ns = "mask_of self (map (\<lambda>x. d_ne x x) (data self))"
    let ?no = "mask_of other (map (\<lambda>x. d_ne x x) (data other))"
    let ?both = "?ns\<lparr>data := map2 (\<and>) (map (\<lambda>x. d_ne x x) (data self))
                                  (map (\<lambda>x. d_ne x x) (expand other shape))\<rparr>"
    have both: "iand ?ns ?no = Inr ?both"
      using assms(4) sh expand_mask_of[of other "\<lambda>x. d_ne x x" shape]
      by (simp add: iand_def logical_inplace_def mask_of_def)
    have lb: "length (data ?both) = numel ?both"
      using lo assms(5) sh by (simp add: numel_def mask_of_def)
    have eb: "expand ?both shape = data ?both"
      using expand_same[OF lb] sh by (simp add: mask_of_def)
    have fin: "ior ?close0 ?both =
      Inr (?close0\<lparr>data := map2 (\<lambda>x y. d_eq x y \<or> d_ne x x \<and> d_ne y y)
                               (expand self shape) (expand other shape)\<rparr>)"
      using eb sh es
      by (simp add: ior_def logical_inplace_def infer_size_same mask_of_def map2_closeness)
    show ?thesis
      using assms(1-3) True
      by (simp add: isclose_def eq isnan_data[OF assms(5)] isnan_data[OF assms(6)] both fin)
  qed
qed

text \<open>
  Otherwise the call raises, for every tolerance: \<open>self.isnan().__iand__(other.isnan())\<close>
  writes into a tensor of the shape of \<open>self\<close>, which is not the broadcast shape.
\<close>

lemma isclose_equal_nan_shape_error:
  assumes "scalar_type self = scalar_type other"
    and "\<not> is_quantized self" and "\<not> is_quantized other"
    and "d_ge rtol (Fin 0)" and "d_ge atol (Fin 0)"
    and "infer_size (sizes self) (sizes other) = Some shape"
    and "is_floating_point self \<or> is_complex self"
    and "shape \<noteq> sizes self"
  shows "isclose fc self other rtol atol True = Inl Broadcast"
  using assms
  by (simp add: isclose_def eq_Tensor_def isnan_def ne_Tensor_def comparison_op_def
      infer_size_same iand_def logical_inplace_def)

text \<open>
  A tensor against itself: \<open>isclose(x, x, 0, 0, equal_nan = true)\<close> is true everywhere,
  and with \<open>equal_nan = false\<close> it is false exactly at the NaNs of \<open>x\<close>.
\<close>

lemma isclose_against_itself:
  assumes "\<not> is_quantized self" and "length (data self) = numel self"
    and "elements_fit_dtype self"
  shows "isclose fc self self (Fin 0) (Fin 0) True =
           Inr (mask_of self (map (\<lambda>x. True) (data self))) \<and>
         isclose fc self self (Fin 0) (Fin 0) False =
           Inr (mask_of self (map (\<lambda>x. x \<noteq> NaN) (data self)))"
proof -
  have t: "map2 (\<lambda>x y. d_eq x y \<or> d_ne x x \<and> d_ne y y) (data self) (data self) =
           map (\<lambda>x. True) (data self)"
    unfolding map2_same by (rule map_cong) (auto simp: d_eq_same d_ne_same)
  have f: "map2 d_eq (data self) (data self) = map (\<lambda>x. x \<noteq> NaN) (data self)"
    unfolding map2_same by (rule map_cong) (auto simp: d_eq_same)
  have n: "map (\<lambda>x. x \<noteq> NaN) (data self) = map (\<lambda>x. True) (data self)"
    if "\<not> (is_floating_point self \<or> is_complex self)"
    using that assms(3) by (auto simp: elements_fit_dtype_def)
  show ?thesis
    using isclose_short_circuit_broadcast[OF refl assms(1) assms(1) infer_size_same
        assms(2) assms(2), of True fc]
      isclose_short_circuit_broadcast[OF refl assms(1) assms(1) infer_size_same
        assms(2) assms(2), of False fc]
      n
    by (auto simp: expand_same[OF assms(2)] t f mask_of_def)
qed

text \<open>
  Claim C5 does not hold of operands that broadcast to another shape than the first
  operand's. For \<open>a = [1]\<close> of shape \<open>[1]\<close> and \<open>b = [1, 2]\<close> of shape \<open>[2]\<close>, both \<open>kFloat\<close>,
  \<open>isclose(a, b, 0, 0, equal_nan = true)\<close> raises, where the claim gives the mask
  \<open>[true, false]\<close>: the NaN-match mask is computed in place in \<open>a.isnan()\<close>, of shape
  \<open>[1]\<close>. The same call with \<open>equal_nan = false\<close>, and the call with the operands
  exchanged, return \<open>[true, false]\<close>.
\<close>

theorem isclose_equal_nan_broadcast_raises:
  "isclose fc (cpu_tensor kFloat [1] [Fin 1]) (cpu_tensor kFloat [2] [Fin 1, Fin 2])
     (Fin 0) (Fin 0) True
   = Inl Broadcast \<and>
   isclose fc (cpu_tensor kFloat [1] [Fin 1]) (cpu_tensor kFloat [2] [Fin 1, Fin 2])
     (Fin 0) (Fin 0) False
   = Inr (cpu_tensor kBool [2] [True, False]) \<and>
   isclose fc (cpu_tensor kFloat [2] [Fin 1, Fin 2]) (cpu_tensor kFloat [1] [Fin 1])
     (Fin 0) (Fin 0) True
   = Inr (cpu_tensor kBool [2] [True, False])"
  by (simp add: isclose_def eq_Tensor_def isnan_def ne_Tensor_def comparison_op_def
      iand_def ior_def logical_inplace_def infer_size_def expand_def cpu_tensor_def
      is_floating_point_def d_ne_def numeral_2_eq_2)

section \<open>Theorems: trivial inputs of min and max\<close>

text \<open>
  Claim C4, as amended. For min and max with indices along a dimension: (1) for an
  input with no element, the impl function runs no kernel and returns the outputs as
  the meta function resized them, whatever the kernel is; (2) for an input of no
  dimension (\<open>numel = 1\<close> and \<open>dim = 0\<close>), the values output is filled with its one
  element and the indices output with 0, whatever the kernel is; (3) every other
  input, a one-element input of one dimension or more among them, goes to the
  kernel, whose result is the result.
\<close>

theorem minmax_trivial_inputs:
  "(numel self = 0 \<longrightarrow>
      minmax_out_impl self d keepdim values indices stub = Inr (values, indices)) \<and>
   (numel self = 1 \<and> dim self = 0 \<and> data self = [x] \<longrightarrow>
      minmax_out_impl self d keepdim values indices stub =
        Inr (fill_inplace values x, fill_inplace indices 0)) \<and>
   (numel self \<noteq> 0 \<and> \<not> (numel self = 1 \<and> dim self = 0) \<longrightarrow>
      minmax_out_impl self d keepdim values indices stub = stub values indices self d keepdim) \<and>
   (numel self = 0 \<and> max_dim_meta R outs self d keepdim = Inr (d', values, indices) \<longrightarrow>
      max_dim R outs self d keepdim = Inr (values, indices)) \<and>
   (numel self = 0 \<and> min_dim_meta R outs self d keepdim = Inr (d', values, indices) \<longrightarrow>
      min_dim R outs self d keepdim = Inr (values, indices))"
  by (simp add: minmax_out_impl_def fill_Tensor_def max_dim_def min_dim_def max_out_def
      min_out_def)

text \<open>
  The theorem at an input of shape \<open>[0, 3]\<close>, at the scalar 5 and at the one-element
  input of shape \<open>[1, 1]\<close>, with a kernel that fails when it runs.
\<close>

theorem minmax_trivial_inputs_witness:
  "numel (cpu_tensor kFloat [0, 3] [] :: double Tensor) = 0 \<and>
   minmax_out_impl (cpu_tensor kFloat [0, 3] []) 1 False
     (cpu_tensor kFloat [0] []) (cpu_tensor kLong [0] []) no_kernel
   = Inr (cpu_tensor kFloat [0] [], cpu_tensor kLong [0] []) \<and>
   numel (cpu_tensor kFloat [] [Fin 5]) = 1 \<and>
   minmax_out_impl (cpu_tensor kFloat [] [Fin 5]) 0 False
     (cpu_tensor kFloat [] [Fin 0]) (cpu_tensor kLong [] [7]) no_kernel
   = Inr (cpu_tensor kFloat [] [Fin 5], cpu_tensor kLong [] [0]) \<and>
   numel (cpu_tensor kFloat [1, 1] [Fin 5]) = 1 \<and>
   minmax_out_impl (cpu_tensor kFloat [1, 1] [Fin 5]) 0 False
     (cpu_tensor kFloat [1] [Fin 0]) (cpu_tensor kLong [1] [7]) no_kernel
   = Inl NotYetImplemented \<and>
   max_dim plain_reduce_env (Some (cpu_tensor kFloat [0] [], cpu_tensor kLong [0] []))
     (cpu_tensor kFloat [0, 3] []) 1 False
   = Inr (cpu_tensor kFloat [0] [], cpu_tensor kLong [0] []) \<and>
   min_dim plain_reduce_env (Some (cpu_tensor kFloat [0] [], cpu_tensor kLong [0] []))
     (cpu_tensor kFloat [0, 3] []) 1 False
   = Inr (cpu_tensor kFloat [0] [], cpu_tensor kLong [0] [])"
  using
    minmax_trivial_inputs[of "cpu_tensor kFloat [0, 3] []" 1 False
      "cpu_tensor kFloat [0] []" "cpu_tensor kLong [0] []" no_kernel "Fin 5"
      plain_reduce_env "Some (cpu_tensor kFloat [0] [], cpu_tensor kLong [0] [])" 1]
    minmax_trivial_inputs[of "cpu_tensor kFloat [] [Fin 5]" 0 False
      "cpu_tensor kFloat [] [Fin 0]" "cpu_tensor kLong [] [7]" no_kernel "Fin 5"
      plain_reduce_env None 0]
    minmax_trivial_inputs[of "cpu_tensor kFloat [1, 1] [Fin 5]" 0 False
      "cpu_tensor kFloat [1] [Fin 0]" "cpu_tensor kLong [1] [7]" no_kernel "Fin 5"
      plain_reduce_env None 0]
  by (simp add: cpu_tensor_def numel_def dim_def fill_inplace_def max_dim_meta_def
      min_dim_meta_def plain_reduce_env_def is_complex_def no_kernel_def)

text \<open>
  Claim C4 as stated fails for the one-element input of shape \<open>[1]\<close>, reduced along its
  dimension to an output of no dimension: \<open>self.dim() == 0\<close> does not hold, the kernel
  runs and its result is the result.
\<close>

theorem minmax_single_element_counterexample:
  "numel (cpu_tensor kFloat [1] [Fin 5]) = 1 \<and>
   minmax_out_impl (cpu_tensor kFloat [1] [Fin 5]) 0 False
     (cpu_tensor kFloat [] [Fin 0]) (cpu_tensor kLong [] [7]) no_kernel
   = no_kernel (cpu_tensor kFloat [] [Fin 0]) (cpu_tensor kLong [] [7])
       (cpu_tensor kFloat [1] [Fin 5]) 0 False \<and>
   minmax_out_impl (cpu_tensor kFloat [1] [Fin 5]) 0 False
     (cpu_tensor kFloat [] [Fin 0]) (cpu_tensor kLong [] [7]) no_kernel
   \<noteq> Inr (fill_inplace (cpu_tensor kFloat [] [Fin 0]) (Fin 5),
           fill_inplace (cpu_tensor kLong [] [7]) 0)"
  by (simp add: minmax_out_impl_def cpu_tensor_def numel_def dim_def no_kernel_def)

section \<open>Theorems: range clamping\<close>

text \<open>
  Where the source fills the result with NaN: \<open>clamp\<close> with both bounds when one of them
  is NaN, \<open>clamp_max\<close> and \<open>clamp_min\<close> when the bound is NaN.
\<close>

lemma clamp_nan_bound_fills:
  "(toDouble mn = Inr NaN \<or> (\<exists>d. toDouble mn = Inr d \<and> d \<noteq> NaN \<and> toDouble mx = Inr NaN) \<longrightarrow>
      clamp_out K it (Some mn) (Some mx) = Inr (fill_inplace (iter_output it) NaN)) \<and>
   (toDouble mx = Inr NaN \<longrightarrow> clamp_max_out K it mx = Inr (fill_inplace (iter_output it) NaN)) \<and>
   (toDouble mn = Inr NaN \<longrightarrow> clamp_min_out K it mn = Inr (fill_inplace (iter_output it) NaN))"
  by (auto simp: clamp_out_def clamp_max_out_def clamp_min_out_def d_ne_def)

text \<open>
  Claim C2 does not hold of \<open>clamp\<close> with one bound. With only \<open>min = NaN\<close> or only
  \<open>max = NaN\<close>, \<open>clamp_out\<close> hands the NaN to the scalar kernel, where \<open>clamp_min_out\<close> and
  \<open>clamp_max_out\<close> fill the result with NaN for the same bound. With the plain formula
  \<open>std::max(a, min)\<close> as the kernel, \<open>clamp([1, 2], min = NaN)\<close> is \<open>[1, 2]\<close>.
\<close>

theorem clamp_one_nan_bound_dispatches_kernel:
  "clamp_out K it (Some (ScalarDouble NaN)) None = clamp_min_scalar_stub K it (ScalarDouble NaN) \<and>
   clamp_out K it None (Some (ScalarDouble NaN)) = clamp_max_scalar_stub K it (ScalarDouble NaN) \<and>
   clamp_min_out K it (ScalarDouble NaN) = Inr (fill_inplace (iter_output it) NaN) \<and>
   clamp_max_out K it (ScalarDouble NaN) = Inr (fill_inplace (iter_output it) NaN) \<and>
   at_clamp plain_engine reference_kernels (cpu_tensor kFloat [2] [Fin 1, Fin 2])
     (Some (ScalarDouble NaN)) None
   = Inr (cpu_tensor kFloat [2] [Fin 1, Fin 2])"
  by (simp add: clamp_out_def clamp_min_out_def clamp_max_out_def d_ne_def
      at_clamp_def clamp_structured_def clamp_meta_def plain_engine_def reference_kernels_def
      cpu_tensor_def to_dtype_def resolve_output_def unary_kernel_def std_max_def d_lt_def)




text \<open>
  Claim C10. \<open>clip\<close>, \<open>clip_\<close> and \<open>clip_out\<close>, with scalar or tensor bounds, return what
  \<open>clamp\<close>, \<open>clamp_\<close> and \<open>clamp_out\<close> return on the same arguments, errors included.
\<close>

theorem clip_is_clamp:
  "clip E K self smin smax = at_clamp E K self smin smax \<and>
   clip_inplace E K self smin smax = at_clamp_inplace E K self smin smax \<and>
   clip_out E K self smin smax result = at_clamp_outf E K self smin smax result \<and>
   clip_Tensor E K self tmin tmax = at_clamp_Tensor E K self tmin tmax \<and>
   clip_Tensor_inplace E K self tmin tmax = at_clamp_Tensor_inplace E K self tmin tmax \<and>
   clip_Tensor_out E K self tmin tmax result = at_clamp_Tensor_outf E K self tmin tmax result"
  by (simp add: clip_def clip_inplace_def clip_out_def clip_Tensor_def clip_Tensor_inplace_def
      clip_Tensor_out_def)

text \<open>
  The theorem at \<open>clip([-1, 0, 5], 0, 3) = [0, 0, 3]\<close>, at an in-place call that fails
  with \<open>UnsafeCast\<close> and at a call without bounds.
\<close>

theorem clip_is_clamp_witness:
  "clip plain_engine reference_kernels (cpu_tensor kFloat [3] [Fin (-1), Fin 0, Fin 5])
     (Some (ScalarInt 0)) (Some (ScalarInt 3))
   = Inr (cpu_tensor kFloat [3] [Fin 0, Fin 0, Fin 3]) \<and>
   clip_inplace plain_engine reference_kernels (cpu_tensor kLong [3] [Fin (-1), Fin 0, Fin 5])
     (Some (ScalarDouble (Fin 0.5))) None
   = Inl UnsafeCast \<and>
   clip plain_engine reference_kernels (cpu_tensor kFloat [3] [Fin (-1), Fin 0, Fin 5]) None None
   = Inl InvalidArgument"
  using
    clip_is_clamp[of plain_engine reference_kernels "cpu_tensor kFloat [3] [Fin (-1), Fin 0, Fin 5]"
      "Some (ScalarInt 0)" "Some (ScalarInt 3)"]
    clip_is_clamp[of plain_engine reference_kernels "cpu_tensor kLong [3] [Fin (-1), Fin 0, Fin 5]"
      "Some (ScalarDouble (Fin 0.5))" None]
    clip_is_clamp[of plain_engine reference_kernels "cpu_tensor kFloat [3] [Fin (-1), Fin 0, Fin 5]"
      None None]
  by (simp add: at_clamp_def at_clamp_inplace_def clamp_structured_def clamp_meta_def
      clamp_out_def plain_engine_def reference_kernels_def cpu_tensor_def to_dtype_def
      resolve_output_def unary_kernel_def std_max_def std_min_def d_lt_def d_ne_def
      spec_result_type_def default_dtype_of_category_def opt_list_def out_defined_def
      out_is_same_self_def)

lemma floating_not_complex: "isFloatingType ty \<Longrightarrow> \<not> isComplexType ty"
  by (cases ty) auto

text \<open>
  Claim C6, as amended. For an in-place scalar-bound \<open>clamp\<close>, \<open>clamp_min\<close> or \<open>clamp_max\<close>
  whose destination is \<open>self\<close>, with \<open>self\<close> neither floating point nor complex and, for
  \<open>clamp_min\<close> and \<open>clamp_max\<close>, a bound that is not a complex scalar: if the promoted
  dtype of \<open>self\<close> and the bounds differs from the dtype of \<open>self\<close>, the call fails with
  \<open>UnsafeCast\<close> and no kernel runs. When \<open>self\<close> is floating point, the promotion is
  not consulted and the meta function goes on to build the iterator. This holds for
  every promotion function, iterator builder and kernel.
\<close>

theorem clamp_inplace_promotion_check:
  "(\<not> isFloatingType (scalar_type self) \<and> \<not> isComplexType (scalar_type self) \<and>
    (smin \<noteq> None \<or> smax \<noteq> None) \<and>
    result_type E self (opt_list smin @ opt_list smax) \<noteq> scalar_type self \<longrightarrow>
      clamp_structured E K self smin smax (Some SelfRef) = Inl UnsafeCast) \<and>
   (\<not> isFloatingType (scalar_type self) \<and> \<not> isComplexType (scalar_type self) \<and>
    \<not> isComplex bound \<and> result_type E self [bound] \<noteq> scalar_type self \<longrightarrow>
      clamp_max_structured E K self bound (Some SelfRef) = Inl UnsafeCast \<and>
      clamp_min_structured E K self bound (Some SelfRef) = Inl UnsafeCast) \<and>
   (isFloatingType (scalar_type self) \<longrightarrow>
      clamp_meta E self smin smax out =
        (if smin = None \<and> smax = None then Inl InvalidArgument
         else build_unary_op E out self (to_dtype self (scalar_type self))) \<and>
      clamp_max_meta E self bound out =
        (if isComplex bound then Inl UnsupportedType else build_borrowing_unary_op E out self) \<and>
      clamp_min_meta E self bound out =
        (if isComplex bound then Inl UnsupportedType else build_borrowing_unary_op E out self))"
  by (auto simp: clamp_structured_def clamp_max_structured_def clamp_min_structured_def
      clamp_meta_def clamp_max_meta_def clamp_min_meta_def out_defined_def out_is_same_self_def
      Let_def floating_not_complex)

text \<open>
  The theorem at an in-place call on a \<open>kLong\<close> tensor with the bound 0.5, and at an
  in-place call on a \<open>kFloat\<close> tensor.
\<close>

theorem clamp_inplace_promotion_check_witness:
  "clamp_structured plain_engine reference_kernels (cpu_tensor kLong [2] [Fin 1, Fin 2])
     (Some (ScalarDouble (Fin 0.5))) None (Some SelfRef) = Inl UnsafeCast \<and>
   clamp_max_structured plain_engine reference_kernels (cpu_tensor kLong [2] [Fin 1, Fin 2])
     (ScalarDouble (Fin 0.5)) (Some SelfRef) = Inl UnsafeCast \<and>
   clamp_min_structured plain_engine reference_kernels (cpu_tensor kLong [2] [Fin 1, Fin 2])
     (ScalarDouble (Fin 0.5)) (Some SelfRef) = Inl UnsafeCast \<and>
   clamp_meta plain_engine (cpu_tensor kFloat [2] [Fin 1, Fin 2])
     (Some (ScalarInt 0)) None (Some SelfRef)
   = Inr \<lparr>iter_output = cpu_tensor kFloat [2] [Fin 1, Fin 2],
           iter_inputs = [cpu_tensor kFloat [2] [Fin 1, Fin 2]]\<rparr>"
  using
    clamp_inplace_promotion_check[where E = plain_engine and K = reference_kernels
      and self = "cpu_tensor kLong [2] [Fin 1, Fin 2]" and smin = "Some (ScalarDouble (Fin 0.5))"
      and smax = None and bound = "ScalarDouble (Fin 0.5)"]
    clamp_inplace_promotion_check[where E = plain_engine and K = reference_kernels
      and self = "cpu_tensor kFloat [2] [Fin 1, Fin 2]" and smin = "Some (ScalarInt 0)"
      and smax = None and bound = "ScalarInt 0" and out = "Some SelfRef"]
  by (simp add: plain_engine_def cpu_tensor_def spec_result_type_def opt_list_def
      default_dtype_of_category_def to_dtype_def resolve_output_def)

text \<open>
  Claim C6 as stated fails for \<open>clamp_max_\<close> on a \<open>kLong\<close> tensor with a complex scalar
  bound: the promoted dtype is complex and differs from \<open>kLong\<close>, and the check of the
  bound, which comes before the promotion, fails with \<open>UnsupportedType\<close>.
\<close>

theorem clamp_max_complex_bound_counterexample:
  "\<not> isFloatingType (scalar_type (cpu_tensor kLong [2] [Fin 1, Fin 2] :: double Tensor)) \<and>
   result_type plain_engine (cpu_tensor kLong [2] [Fin 1, Fin 2])
     [ScalarComplex (Fin 1) (Fin 1)] = kComplexFloat \<and>
   kComplexFloat \<noteq> scalar_type (cpu_tensor kLong [2] [Fin 1, Fin 2] :: double Tensor) \<and>
   clamp_max_structured plain_engine reference_kernels (cpu_tensor kLong [2] [Fin 1, Fin 2])
     (ScalarComplex (Fin 1) (Fin 1)) (Some SelfRef) = Inl UnsupportedType"
  by (simp add: clamp_max_structured_def clamp_max_meta_def plain_engine_def cpu_tensor_def
      spec_result_type_def default_dtype_of_category_def)

end
